theory Spec2Isabelle
  imports Main "HOL-Library.Code_Target_Nat"
begin

section \<open>Common vocabulary\<close>

text \<open>
  Identifiers (database UUIDs, socket ids, media-library ids) are strings, as in the
  JavaScript source. Time stamps (\<open>NOW()\<close>, \<open>Date.now()\<close>) are natural numbers handed to
  the model by the caller. The database is assumed reachable and every id handed to a
  query is a well-formed UUID; what a query raises is then a constraint violation of
  \<open>schema.sql\<close>, and those are modelled.
\<close>

type_synonym uuid = string
type_synonym socket_id = string
type_synonym timestamp = nat

datatype db_error = UniqueViolation | ForeignKeyViolation | InvalidLimit

text \<open>
  A JavaScript \<open>Map\<close> keeps its keys in insertion order: \<open>set\<close> on a present key
  replaces the value in place, on an absent key appends; iteration follows the list.
\<close>

fun map_get :: "('k \<times> 'v) list \<Rightarrow> 'k \<Rightarrow> 'v option" where
  "map_get [] k = None"
| "map_get ((k', v) # kvs) k = (if k' = k then Some v else map_get kvs k)"

fun map_set :: "('k \<times> 'v) list \<Rightarrow> 'k \<Rightarrow> 'v \<Rightarrow> ('k \<times> 'v) list" where
  "map_set [] k v = [(k, v)]"
| "map_set ((k', v') # kvs) k v = (if k' = k then (k, v) # kvs else (k', v') # map_set kvs k v)"

definition map_has :: "('k \<times> 'v) list \<Rightarrow> 'k \<Rightarrow> bool" where
  "map_has kvs k = (map_get kvs k \<noteq> None)"

definition map_delete :: "('k \<times> 'v) list \<Rightarrow> 'k \<Rightarrow> ('k \<times> 'v) list" where
  "map_delete kvs k = filter (\<lambda>kv. fst kv \<noteq> k) kvs"

text \<open>
  JavaScript truthiness of an optional string (\<open>undefined\<close>, \<open>null\<close> and the empty
  string are falsy).
\<close>

fun truthy :: "string option \<Rightarrow> bool" where
  "truthy None = False"
| "truthy (Some s) = (s \<noteq> [])"

section \<open>The database (schema.sql)\<close>

text \<open>
  One record per table, one field per column that a query of the repository reads or
  writes. The surrogate \<open>id\<close> columns of \<open>room_participants\<close>, \<open>message_status\<close> and
  \<open>call_participants\<close> are generated and never read, and are left out. Columns with a
  \<open>CHECK (.. IN ..)\<close> constraint whose values the code only writes as literals are
  datatypes.
\<close>

datatype msg_status = Sent | Delivered | Read

datatype call_status = Ringing | Ongoing | Completed | Missed | Rejected

datatype call_type = AudioCall | VideoCall

datatype room_type = Private | Group

record user_row =
  u_id :: uuid
  u_username :: string
  u_email :: "string option"
  u_phone_number :: "string option"
  u_password :: string
  u_profile_picture :: "string option"
  u_role :: string
  u_status :: string
  u_is_online :: bool
  u_last_seen :: "timestamp option"
  u_created_at :: timestamp

record room_row =
  r_id :: uuid
  r_type :: room_type
  r_name :: "string option"
  r_created_at :: timestamp
  r_created_by :: "uuid option"

record room_participant_row =
  rp_room_id :: uuid
  rp_user_id :: uuid
  rp_role :: string
  rp_joined_at :: timestamp
  rp_left_at :: "timestamp option"

record message_row =
  m_id :: uuid
  m_room_id :: uuid
  m_sender_id :: "uuid option"
  m_content :: "string option"
  m_message_type :: string
  m_file_url :: "string option"
  m_created_at :: timestamp
  m_edited_at :: "timestamp option"

record message_status_row =
  ms_message_id :: uuid
  ms_user_id :: uuid
  ms_status :: msg_status
  ms_updated_at :: timestamp

record call_row =
  c_id :: uuid
  c_room_id :: uuid
  c_initiator_id :: "uuid option"
  c_started_at :: timestamp
  c_ended_at :: "timestamp option"
  c_call_type :: call_type
  c_status :: call_status

record call_participant_row =
  cp_call_id :: uuid
  cp_user_id :: uuid
  cp_joined_at :: timestamp
  cp_left_at :: "timestamp option"
  cp_answered :: bool

record db =
  users :: "user_row list"
  rooms :: "room_row list"
  room_participants :: "room_participant_row list"
  messages :: "message_row list"
  message_status :: "message_status_row list"
  calls :: "call_row list"
  call_participants :: "call_participant_row list"

definition empty_db :: db where
  "empty_db = \<lparr>users = [], rooms = [], room_participants = [], messages = [],
     message_status = [], calls = [], call_participants = []\<rparr>"

definition user_exists :: "db \<Rightarrow> uuid \<Rightarrow> bool" where
  "user_exists d uid = (uid \<in> set (map u_id (users d)))"

definition message_exists :: "db \<Rightarrow> uuid \<Rightarrow> bool" where
  "message_exists d mid = (mid \<in> set (map m_id (messages d)))"

section \<open>Message queries (db/queries/messages.js)\<close>

subsection \<open>listByRoom: history with the aggregated delivery status\<close>

text \<open>
  The inner \<open>CASE ms.status WHEN 'read' THEN 2 WHEN 'delivered' THEN 1 ELSE 0 END\<close>.
\<close>

fun sql_status_rank :: "msg_status \<Rightarrow> nat" where
  "sql_status_rank Read = 2"
| "sql_status_rank Delivered = 1"
| "sql_status_rank Sent = 0"

text \<open>
  SQL's \<open>MIN\<close> is \<open>NULL\<close> over no rows, and a comparison with \<open>NULL\<close> is not true.
\<close>

fun sql_min :: "nat list \<Rightarrow> nat option" where
  "sql_min [] = None"
| "sql_min (x # xs) = (case sql_min xs of None \<Rightarrow> Some x | Some m \<Rightarrow> Some (min x m))"

fun sql_ge :: "nat option \<Rightarrow> nat \<Rightarrow> bool" where
  "sql_ge None n = False"
| "sql_ge (Some m) n = (n \<le> m)"

definition status_rows_of :: "db \<Rightarrow> uuid \<Rightarrow> message_status_row list" where
  "status_rows_of d mid = filter (\<lambda>ms. ms_message_id ms = mid) (message_status d)"

text \<open>
  The correlated subquery of \<open>listByRoom\<close>; the outer \<open>COALESCE(.., 'sent')\<close> never
  fires, since an aggregate without \<open>GROUP BY\<close> always yields one row.
\<close>

definition delivery_status_subquery :: "db \<Rightarrow> uuid \<Rightarrow> msg_status" where
  "delivery_status_subquery d mid =
     (let rows = status_rows_of d mid;
          mn = sql_min (map (\<lambda>ms. sql_status_rank (ms_status ms)) rows)
      in if length rows = 0 then Sent
         else if sql_ge mn 2 then Read
         else if sql_ge mn 1 then Delivered
         else Sent)"

record history_row =
  h_message :: message_row
  h_sender_username :: "string option"
  h_sender_picture :: "string option"
  h_delivery_status :: msg_status

definition find_user :: "db \<Rightarrow> uuid \<Rightarrow> user_row option" where
  "find_user d uid = find (\<lambda>u. u_id u = uid) (users d)"

definition history_of :: "db \<Rightarrow> message_row \<Rightarrow> history_row" where
  "history_of d m =
     (let u = (case m_sender_id m of None \<Rightarrow> None | Some s \<Rightarrow> find_user d s)
      in \<lparr>h_message = m,
          h_sender_username = map_option u_username u,
          h_sender_picture = (case u of None \<Rightarrow> None | Some r \<Rightarrow> u_profile_picture r),
          h_delivery_status = delivery_status_subquery d (m_id m)\<rparr>)"

text \<open>
  \<open>listByRoom(roomId, {limit = 50, before})\<close>: an absent limit is 50, a present one is a
  non-negative integer; \<open>before\<close> adds \<open>AND m.created_at < $3\<close> when given. The order is
  \<open>created_at DESC\<close>; rows with equal time stamps have no order in SQL and keep their
  table order here.
\<close>

definition listByRoom :: "db \<Rightarrow> uuid \<Rightarrow> nat option \<Rightarrow> timestamp option \<Rightarrow> history_row list" where
  "listByRoom d roomId limit bef =
     (let lim = (case limit of None \<Rightarrow> 50 | Some n \<Rightarrow> n);
          sel = filter (\<lambda>m. m_room_id m = roomId \<and>
                   (case bef of None \<Rightarrow> True | Some b \<Rightarrow> m_created_at m < b)) (messages d)
      in take lim (map (history_of d) (rev (sort_key m_created_at sel))))"

text \<open>The \<open>get_messages\<close> socket handler acknowledges with the list.\<close>

definition get_messages :: "db \<Rightarrow> uuid \<Rightarrow> timestamp option \<Rightarrow> nat option \<Rightarrow> history_row list" where
  "get_messages d roomId bef limit = listByRoom d roomId limit bef"

subsection \<open>The aggregation as the specification words it\<close>

text \<open>The ordering \<open>sent < delivered < read\<close> of the specification.\<close>

fun status_ord :: "msg_status \<Rightarrow> nat" where
  "status_ord Sent = 0"
| "status_ord Delivered = 1"
| "status_ord Read = 2"

instantiation msg_status :: linorder
begin

definition less_eq_msg_status :: "msg_status \<Rightarrow> msg_status \<Rightarrow> bool" where
  "less_eq_msg_status a b = (status_ord a \<le> status_ord b)"

definition less_msg_status :: "msg_status \<Rightarrow> msg_status \<Rightarrow> bool" where
  "less_msg_status a b = (status_ord a < status_ord b)"

instance
proof
  fix x y z :: msg_status
  show "(x < y) = (x \<le> y \<and> \<not> y \<le> x)"
    by (auto simp: less_eq_msg_status_def less_msg_status_def)
  show "x \<le> x"
    by (simp add: less_eq_msg_status_def)
  show "x \<le> y \<Longrightarrow> y \<le> z \<Longrightarrow> x \<le> z"
    by (simp add: less_eq_msg_status_def)
  show "x \<le> y \<Longrightarrow> y \<le> x \<Longrightarrow> x = y"
    by (cases x; cases y) (simp_all add: less_eq_msg_status_def)
  show "x \<le> y \<or> y \<le> x"
    by (auto simp: less_eq_msg_status_def)
qed

end

text \<open>
  The specification's aggregate: \<open>sent\<close> when the message has no status row, otherwise
  the minimum of the statuses of its rows.
\<close>

definition spec_delivery_status :: "msg_status list \<Rightarrow> msg_status" where
  "spec_delivery_status sts = (if sts = [] then Sent else Min (set sts))"

subsection \<open>Read receipts: setStatus and markRoomAs\<close>

definition has_status_row :: "db \<Rightarrow> uuid \<Rightarrow> uuid \<Rightarrow> bool" where
  "has_status_row d messageId userId =
     (\<exists>ms \<in> set (message_status d). ms_message_id ms = messageId \<and> ms_user_id ms = userId)"

text \<open>
  \<open>setStatus\<close>: \<open>INSERT .. ON CONFLICT (message_id, user_id) DO UPDATE SET status =
  EXCLUDED.status, updated_at = NOW()\<close>. A conflicting row is overwritten whatever its
  status; a new row is inserted when both foreign keys resolve.
\<close>

definition setStatus :: "db \<Rightarrow> timestamp \<Rightarrow> uuid \<Rightarrow> uuid \<Rightarrow> msg_status \<Rightarrow> db_error + db" where
  "setStatus d now messageId userId st =
     (if has_status_row d messageId userId
      then Inr (d\<lparr>message_status :=
                  map (\<lambda>ms. if ms_message_id ms = messageId \<and> ms_user_id ms = userId
                            then ms\<lparr>ms_status := st, ms_updated_at := now\<rparr> else ms)
                      (message_status d)\<rparr>)
      else if \<not> message_exists d messageId \<or> \<not> user_exists d userId
      then Inl ForeignKeyViolation
      else Inr (d\<lparr>message_status := message_status d @
                  [\<lparr>ms_message_id = messageId, ms_user_id = userId, ms_status = st,
                    ms_updated_at = now\<rparr>]\<rparr>))"

text \<open>
  \<open>markRoomAs\<close>: one \<open>INSERT .. SELECT\<close> over the messages of the room with
  \<open>m.sender_id != $2\<close> (not true for a \<open>NULL\<close> sender), with
  \<open>ON CONFLICT .. DO UPDATE .. WHERE message_status.status != $3\<close>. The statement fails
  as a whole when a row to insert has no user to refer to.
\<close>

definition markRoomAs :: "db \<Rightarrow> timestamp \<Rightarrow> uuid \<Rightarrow> uuid \<Rightarrow> msg_status \<Rightarrow> db_error + db" where
  "markRoomAs d now roomId userId st =
     (let sel = map m_id (filter (\<lambda>m. m_room_id m = roomId \<and>
                    (case m_sender_id m of None \<Rightarrow> False | Some s \<Rightarrow> s \<noteq> userId)) (messages d));
          fresh = filter (\<lambda>mid. \<not> has_status_row d mid userId) sel
      in if fresh \<noteq> [] \<and> \<not> user_exists d userId then Inl ForeignKeyViolation
         else Inr (d\<lparr>message_status :=
                map (\<lambda>ms. if ms_user_id ms = userId \<and> ms_message_id ms \<in> set sel \<and> ms_status ms \<noteq> st
                          then ms\<lparr>ms_status := st, ms_updated_at := now\<rparr> else ms)
                    (message_status d)
                @ map (\<lambda>mid. \<lparr>ms_message_id = mid, ms_user_id = userId, ms_status = st,
                                ms_updated_at = now\<rparr>) fresh\<rparr>))"

section \<open>The socket hub (server.js): sessions and chat receipts\<close>

text \<open>
  \<open>connectedUsers\<close> maps a socket id to \<open>{socketId, userId, username}\<close>; the user id and
  name are whatever the client sent with \<open>register_user\<close>. Handlers are modelled by what
  they do to the database and to the in-memory maps; the events they emit to sockets are
  not part of that state and are left out.
\<close>

record session =
  s_socketId :: socket_id
  s_userId :: "uuid option"
  s_username :: "string option"

type_synonym connected_users = "(socket_id \<times> session) list"

text \<open>
  \<open>user?.userId\<close> of the session registered for a socket, when it is truthy.
\<close>

definition session_user :: "connected_users \<Rightarrow> socket_id \<Rightarrow> uuid option" where
  "session_user cu sid =
     (case map_get cu sid of
        None \<Rightarrow> None
      | Some user \<Rightarrow> (if truthy (s_userId user) then s_userId user else None))"

text \<open>
  \<open>message_delivered {messageId}\<close>: returns early without a user id or a message id;
  otherwise \<open>setStatus(messageId, user.userId, 'delivered')\<close>, a query error being caught
  and logged.
\<close>

definition message_delivered ::
  "db \<Rightarrow> connected_users \<Rightarrow> timestamp \<Rightarrow> socket_id \<Rightarrow> uuid option \<Rightarrow> db" where
  "message_delivered d cu now sid messageId =
     (case session_user cu sid of
        None \<Rightarrow> d
      | Some userId \<Rightarrow>
          (case messageId of
             None \<Rightarrow> d
           | Some mid \<Rightarrow>
               if mid = [] then d
               else (case setStatus d now mid userId Delivered of
                       Inl err \<Rightarrow> d
                     | Inr d' \<Rightarrow> d')))"

text \<open>
  \<open>mark_read {roomId}\<close>: \<open>markRoomAs(roomId, user.userId, 'read')\<close>; an absent room id
  reaches the query as \<open>NULL\<close> and selects no message.
\<close>

definition mark_read ::
  "db \<Rightarrow> connected_users \<Rightarrow> timestamp \<Rightarrow> socket_id \<Rightarrow> uuid option \<Rightarrow> db" where
  "mark_read d cu now sid roomId =
     (case session_user cu sid of
        None \<Rightarrow> d
      | Some userId \<Rightarrow>
          (case roomId of
             None \<Rightarrow> d
           | Some rid \<Rightarrow>
               (case markRoomAs d now rid userId Read of
                  Inl err \<Rightarrow> d
                | Inr d' \<Rightarrow> d')))"

text \<open>Sequences of receipt events, each with the time at which it is handled.\<close>

datatype receipt_event =
    MessageDelivered socket_id "uuid option"
  | MarkRead socket_id "uuid option"

fun receipt_step :: "connected_users \<Rightarrow> db \<Rightarrow> timestamp \<times> receipt_event \<Rightarrow> db" where
  "receipt_step cu d (now, MessageDelivered sid messageId) = message_delivered d cu now sid messageId"
| "receipt_step cu d (now, MarkRead sid roomId) = mark_read d cu now sid roomId"

definition run_receipts :: "connected_users \<Rightarrow> db \<Rightarrow> (timestamp \<times> receipt_event) list \<Rightarrow> db" where
  "run_receipts cu d evs = foldl (receipt_step cu) d evs"

fun is_mark_read :: "timestamp \<times> receipt_event \<Rightarrow> bool" where
  "is_mark_read (now, MarkRead sid roomId) = True"
| "is_mark_read (now, MessageDelivered sid messageId) = False"

text \<open>The status stored for a message and a recipient, if there is a row.\<close>

definition status_of :: "db \<Rightarrow> uuid \<Rightarrow> uuid \<Rightarrow> msg_status option" where
  "status_of d messageId userId =
     map_option ms_status
       (find (\<lambda>ms. ms_message_id ms = messageId \<and> ms_user_id ms = userId) (message_status d))"

text \<open>Position on \<open>sent < delivered < read\<close>; no row counts as the start.\<close>

fun status_level :: "msg_status option \<Rightarrow> nat" where
  "status_level None = 0"
| "status_level (Some s) = status_ord s"

section \<open>Call queries (db/queries/calls.js) and the call handlers of the hub\<close>

definition find_call :: "db \<Rightarrow> uuid \<Rightarrow> call_row option" where
  "find_call d callId = find (\<lambda>c. c_id c = callId) (calls d)"

definition room_exists :: "db \<Rightarrow> uuid \<Rightarrow> bool" where
  "room_exists d rid = (rid \<in> set (map r_id (rooms d)))"

text \<open>
  \<open>create\<close>: \<open>INSERT INTO calls (room_id, initiator_id, call_type, status) VALUES ($1, $2,
  $3, 'ringing')\<close>. The primary key is generated by the database and is a parameter here.
\<close>

definition calls_create ::
  "db \<Rightarrow> timestamp \<Rightarrow> uuid \<Rightarrow> uuid \<Rightarrow> uuid \<Rightarrow> call_type \<Rightarrow> db_error + (db \<times> call_row)" where
  "calls_create d now newId roomId initiatorId callType =
     (if newId \<in> set (map c_id (calls d)) then Inl UniqueViolation
      else if \<not> room_exists d roomId \<or> \<not> user_exists d initiatorId then Inl ForeignKeyViolation
      else (let call = \<lparr>c_id = newId, c_room_id = roomId, c_initiator_id = Some initiatorId,
                           c_started_at = now, c_ended_at = None, c_call_type = callType,
                           c_status = Ringing\<rparr>
            in Inr (d\<lparr>calls := calls d @ [call]\<rparr>, call)))"

text \<open>
  \<open>updateStatus\<close>: \<open>ended_at = NOW()\<close> is added to the update exactly for the statuses
  \<open>completed\<close>, \<open>missed\<close> and \<open>rejected\<close>.
\<close>

definition calls_updateStatus :: "db \<Rightarrow> timestamp \<Rightarrow> uuid \<Rightarrow> call_status \<Rightarrow> db" where
  "calls_updateStatus d now callId st =
     d\<lparr>calls := map (\<lambda>c. if c_id c = callId
                            then (if st \<in> set [Completed, Missed, Rejected]
                                  then c\<lparr>c_status := st, c_ended_at := Some now\<rparr>
                                  else c\<lparr>c_status := st\<rparr>)
                            else c) (calls d)\<rparr>"

text \<open>\<open>end(id)\<close> is \<open>updateStatus(id, 'completed')\<close>.\<close>

definition calls_end :: "db \<Rightarrow> timestamp \<Rightarrow> uuid \<Rightarrow> db" where
  "calls_end d now callId = calls_updateStatus d now callId Completed"

definition calls_addParticipant :: "db \<Rightarrow> timestamp \<Rightarrow> uuid \<Rightarrow> uuid \<Rightarrow> db_error + db" where
  "calls_addParticipant d now callId userId =
     (if find_call d callId = None \<or> \<not> user_exists d userId then Inl ForeignKeyViolation
      else Inr (d\<lparr>call_participants := call_participants d @
                  [\<lparr>cp_call_id = callId, cp_user_id = userId, cp_joined_at = now,
                    cp_left_at = None, cp_answered = False\<rparr>]\<rparr>))"

definition calls_answerParticipant :: "db \<Rightarrow> timestamp \<Rightarrow> uuid \<Rightarrow> uuid \<Rightarrow> db" where
  "calls_answerParticipant d now callId userId =
     d\<lparr>call_participants :=
         map (\<lambda>cp. if cp_call_id cp = callId \<and> cp_user_id cp = userId
                   then cp\<lparr>cp_answered := True, cp_joined_at := now\<rparr> else cp)
             (call_participants d)\<rparr>"

text \<open>\<open>activeCalls\<close>: room id to the id of the call row (\<open>{callId}\<close>).\<close>

type_synonym active_calls = "(uuid \<times> uuid) list"

text \<open>
  \<open>call_user\<close>: with a room id and a registered user, the call row is created, the
  caller added as participant and the room mapped to the call; an error of either query
  is caught, and then the mapping is not set.
\<close>

definition call_user ::
  "db \<Rightarrow> active_calls \<Rightarrow> connected_users \<Rightarrow> timestamp \<Rightarrow> uuid \<Rightarrow> socket_id \<Rightarrow> uuid option \<Rightarrow> bool
     \<Rightarrow> db \<times> active_calls" where
  "call_user d ac cu now newId sid roomId isVideoCall =
     (case session_user cu sid of
        None \<Rightarrow> (d, ac)
      | Some userId \<Rightarrow>
          (case roomId of
             None \<Rightarrow> (d, ac)
           | Some rid \<Rightarrow>
               if rid = [] then (d, ac)
               else (case calls_create d now newId rid userId
                            (if isVideoCall then VideoCall else AudioCall) of
                       Inl err \<Rightarrow> (d, ac)
                     | Inr (d1, call) \<Rightarrow>
                         (case calls_addParticipant d1 now (c_id call) userId of
                            Inl err \<Rightarrow> (d1, ac)
                          | Inr d2 \<Rightarrow> (d2, map_set ac rid (c_id call))))))"

text \<open>
  \<open>answer_call\<close>: the answering user is inserted as participant, marked answered, and
  the call set to \<open>ongoing\<close>; the first failing query ends the block.
\<close>

definition answer_call ::
  "db \<Rightarrow> active_calls \<Rightarrow> connected_users \<Rightarrow> timestamp \<Rightarrow> socket_id \<Rightarrow> uuid option \<Rightarrow> db" where
  "answer_call d ac cu now sid roomId =
     (case session_user cu sid of
        None \<Rightarrow> d
      | Some userId \<Rightarrow>
          (case roomId of
             None \<Rightarrow> d
           | Some rid \<Rightarrow>
               if rid = [] then d
               else (case map_get ac rid of
                       None \<Rightarrow> d
                     | Some callId \<Rightarrow>
                         if callId = [] then d
                         else (case calls_addParticipant d now callId userId of
                                 Inl err \<Rightarrow> d
                               | Inr d1 \<Rightarrow>
                                   calls_updateStatus (calls_answerParticipant d1 now callId userId)
                                     now callId Ongoing))))"

definition reject_call ::
  "db \<Rightarrow> active_calls \<Rightarrow> timestamp \<Rightarrow> uuid option \<Rightarrow> db \<times> active_calls" where
  "reject_call d ac now roomId =
     (case roomId of
        None \<Rightarrow> (d, ac)
      | Some rid \<Rightarrow>
          if rid = [] then (d, ac)
          else (case map_get ac rid of
                  None \<Rightarrow> (d, ac)
                | Some callId \<Rightarrow>
                    if callId = [] then (d, ac)
                    else (calls_updateStatus d now callId Rejected, map_delete ac rid)))"

text \<open>
  \<open>end_call\<close>: \<open>queries.calls.end(active.callId)\<close>, then the room is dropped from
  \<open>activeCalls\<close>. Neither the status of the call nor its participants are read.
\<close>

definition end_call ::
  "db \<Rightarrow> active_calls \<Rightarrow> timestamp \<Rightarrow> uuid option \<Rightarrow> db \<times> active_calls" where
  "end_call d ac now roomId =
     (case roomId of
        None \<Rightarrow> (d, ac)
      | Some rid \<Rightarrow>
          if rid = [] then (d, ac)
          else (case map_get ac rid of
                  None \<Rightarrow> (d, ac)
                | Some callId \<Rightarrow>
                    if callId = [] then (d, ac)
                    else (calls_end d now callId, map_delete ac rid)))"

text \<open>Whether some participant other than the initiator has answered the call.\<close>

definition answered_by_other :: "db \<Rightarrow> call_row \<Rightarrow> bool" where
  "answered_by_other d c =
     (\<exists>cp \<in> set (call_participants d).
        cp_call_id cp = c_id c \<and> cp_answered cp \<and> Some (cp_user_id cp) \<noteq> c_initiator_id c)"

section \<open>The media server (mediaServer.js)\<close>

text \<open>
  The media library (workers, routers, transports, RTP), the file system and the muxer
  process are outside the repository. The model keeps the maps and fields that
  \<open>MediaServer\<close> itself maintains; what a library call returns (an id it assigns, or an
  error it throws) is a parameter of the operation that makes the call. Closing a
  producer, consumer, transport or router is an effect on library objects only.
\<close>

datatype js_error = Error string | TypeError string

datatype media_kind = Audio | Video

fun kind_name :: "media_kind \<Rightarrow> string" where
  "kind_name Audio = ''audio''"
| "kind_name Video = ''video''"

text \<open>Decimal rendering of a number in a template literal.\<close>

fun string_of_nat :: "nat \<Rightarrow> string" where
  "string_of_nat n =
     (if n < 10 then [''0123456789'' ! n]
      else string_of_nat (n div 10) @ [''0123456789'' ! (n mod 10)])"

declare string_of_nat.simps [simp del]

record producer =
  prod_id :: string
  prod_kind :: media_kind
  prod_peerId :: socket_id

record consumer =
  cons_id :: string
  cons_producerId :: string
  cons_kind :: media_kind
  cons_paused :: bool

record transport =
  t_id :: string

record peer =
  peer_id :: socket_id
  peer_username :: string
  sendTransport :: "transport option"
  recvTransport :: "transport option"
  producers :: "(string \<times> producer) list"
  consumers :: "(string \<times> consumer) list"
  rtpCapabilities :: "string option"

record plain_transport =
  pt_id :: string
  pt_port :: nat

record recording_consumer =
  rc_consumer :: consumer
  rc_producerId :: string
  rc_kind :: media_kind

record recording_input =
  in_port :: nat
  in_sdpFile :: string
  in_peerId :: socket_id

record recording =
  rec_id :: string
  rec_startTime :: timestamp
  rec_outputFile :: string
  rec_hasVideo :: bool
  rec_ffmpegProcess :: "string list option"
  rec_transports :: "plain_transport list"
  rec_consumers :: "recording_consumer list"
  rec_audioInputs :: "recording_input list"
  rec_videoInputs :: "recording_input list"

text \<open>
  A room: the router is named by the index of the worker that hosts it. A room is a
  JavaScript object, and the part of \<open>stopRecording\<close> that runs after its wait holds on
  to the object, not to the room id; \<open>mr_object\<close> is the identity of the object.
\<close>

record media_room =
  mr_id :: string
  mr_object :: nat
  mr_router :: nat
  mr_peers :: "(socket_id \<times> peer) list"
  mr_recording :: "recording option"
  mr_createdAt :: timestamp

text \<open>
  \<open>this.peers\<close> maps a peer id to \<open>{roomId, peer}\<close>, where \<open>peer\<close> is the very object
  stored in that room's \<open>peers\<close> map (\<open>addPeer\<close> sets both at once, and nothing else sets
  either); the model keeps the room id and reads the peer from the room.
\<close>

text \<open>
  \<open>pending_stops\<close> holds the calls of \<open>stopRecording\<close> that are waiting at their
  \<open>await\<close>, oldest first: the room object and the recording each one captured.
\<close>

record media_server =
  numWorkers :: nat
  nextWorkerIndex :: nat
  nextObject :: nat
  media_rooms :: "(string \<times> media_room) list"
  media_peers :: "(socket_id \<times> string) list"
  pending_stops :: "(nat \<times> recording) list"

text \<open>
  \<open>Math.random()\<close> gives a double that is at least 0 and less than 1. Such a double is
  written here as a pair \<open>(m, n)\<close>, the number \<open>m / 2 ^ n\<close>, with a significand of at most
  53 bits and an exponent no smaller than the format allows.
\<close>

type_synonym dyadic = "nat \<times> nat"

definition is_unit_double :: "dyadic \<Rightarrow> bool" where
  "is_unit_double d = (fst d < 2 ^ 53 \<and> fst d < 2 ^ snd d \<and> snd d \<le> 1074)"

fun bit_length :: "nat \<Rightarrow> nat" where
  "bit_length n = (if n = 0 then 0 else Suc (bit_length (n div 2)))"

declare bit_length.simps [simp del]

text \<open>
  Rounding to double precision: the number with at most 53 significant bits that is
  nearest to \<open>M\<close>, the one with the even significand when two are equally near.
\<close>

definition round_to_double :: "nat \<Rightarrow> nat" where
  "round_to_double M =
     (let k = bit_length M - 53;
          q = M div 2 ^ k;
          r = M mod 2 ^ k;
          half = 2 ^ k div 2
      in if k = 0 then M
         else if r > half \<or> (r = half \<and> odd q) then (q + 1) * 2 ^ k
         else q * 2 ^ k)"

text \<open>
  The product \<open>d * c\<close> of a double \<open>d = (m, n)\<close> below 1 with a whole number \<open>c\<close>, as the
  language computes it: the exact product \<open>m * c / 2 ^ n\<close> rounded to double precision
  (no product here leaves the range of the format). \<open>Math.floor\<close> is exact.
\<close>

definition double_times :: "dyadic \<Rightarrow> nat \<Rightarrow> dyadic" where
  "double_times d c = (round_to_double (fst d * c), snd d)"

definition math_floor :: "dyadic \<Rightarrow> nat" where
  "math_floor d = fst d div 2 ^ snd d"

text \<open>
  What the surroundings hand to a recording start: the clock; the values of
  \<open>Math.random()\<close> in the order of the calls; for each recording input the ids of the
  plain transport and consumer the router creates (or nothing, when a step of the \<open>try\<close>
  block throws); the error of \<open>spawn\<close> and of each \<open>consumer.resume()\<close> if any; Node's
  \<open>path.join\<close> and the recordings directory. A recording start is modelled as running to
  its end with no other event handled between its awaits.
\<close>

record rec_env =
  env_now :: timestamp
  env_random :: "nat \<Rightarrow> dyadic"
  env_tap :: "nat \<Rightarrow> (string \<times> string) option"
  env_spawn :: "js_error option"
  env_resume :: "nat \<Rightarrow> js_error option"
  env_path_join :: "string \<Rightarrow> string \<Rightarrow> string"
  env_recordings_dir :: string

definition set_room :: "media_server \<Rightarrow> string \<Rightarrow> media_room \<Rightarrow> media_server" where
  "set_room ms roomId room = ms\<lparr>media_rooms := map_set (media_rooms ms) roomId room\<rparr>"

subsection \<open>Rooms and peers\<close>

definition getNextWorker :: "media_server \<Rightarrow> media_server \<times> nat" where
  "getNextWorker ms =
     (ms\<lparr>nextWorkerIndex := (nextWorkerIndex ms + 1) mod numWorkers ms\<rparr>, nextWorkerIndex ms)"

definition getOrCreateRoom :: "media_server \<Rightarrow> timestamp \<Rightarrow> string \<Rightarrow> media_server \<times> media_room" where
  "getOrCreateRoom ms now roomId =
     (case map_get (media_rooms ms) roomId of
        Some room \<Rightarrow> (ms, room)
      | None \<Rightarrow>
          (let (ms1, worker) = getNextWorker ms;
               room = \<lparr>mr_id = roomId, mr_object = nextObject ms1, mr_router = worker,
                       mr_peers = [], mr_recording = None, mr_createdAt = now\<rparr>
           in (set_room (ms1\<lparr>nextObject := Suc (nextObject ms1)\<rparr>) roomId room, room)))"

definition addPeer :: "media_server \<Rightarrow> timestamp \<Rightarrow> string \<Rightarrow> socket_id \<Rightarrow> string \<Rightarrow> media_server" where
  "addPeer ms now roomId peerId username =
     (let (ms1, room) = getOrCreateRoom ms now roomId;
          p = \<lparr>peer_id = peerId, peer_username = username, sendTransport = None,
               recvTransport = None, producers = [], consumers = [], rtpCapabilities = None\<rparr>
      in (set_room ms1 roomId (room\<lparr>mr_peers := map_set (mr_peers room) peerId p\<rparr>))
           \<lparr>media_peers := map_set (media_peers ms1) peerId roomId\<rparr>)"

definition room_not_found :: "string \<Rightarrow> js_error" where
  "room_not_found roomId = Error (''Room '' @ roomId @ '' not found'')"

definition peer_not_found :: "socket_id \<Rightarrow> js_error" where
  "peer_not_found peerId = Error (''Peer '' @ peerId @ '' not found'')"

definition setPeerRtpCapabilities ::
  "media_server \<Rightarrow> string \<Rightarrow> socket_id \<Rightarrow> string \<Rightarrow> media_server \<times> js_error option" where
  "setPeerRtpCapabilities ms roomId peerId caps =
     (case map_get (media_rooms ms) roomId of
        None \<Rightarrow> (ms, Some (room_not_found roomId))
      | Some room \<Rightarrow>
          (case map_get (mr_peers room) peerId of
             None \<Rightarrow> (ms, Some (peer_not_found peerId))
           | Some p \<Rightarrow>
               (set_room ms roomId
                  (room\<lparr>mr_peers := map_set (mr_peers room) peerId (p\<lparr>rtpCapabilities := Some caps\<rparr>)\<rparr>),
                None)))"

definition storePeerTransport ::
  "media_server \<Rightarrow> string \<Rightarrow> socket_id \<Rightarrow> transport \<Rightarrow> string \<Rightarrow> media_server \<times> js_error option" where
  "storePeerTransport ms roomId peerId tr direction =
     (case map_get (media_rooms ms) roomId of
        None \<Rightarrow> (ms, Some (room_not_found roomId))
      | Some room \<Rightarrow>
          (case map_get (mr_peers room) peerId of
             None \<Rightarrow> (ms, Some (peer_not_found peerId))
           | Some p \<Rightarrow>
               (set_room ms roomId
                  (room\<lparr>mr_peers := map_set (mr_peers room) peerId
                     (if direction = ''send'' then p\<lparr>sendTransport := Some tr\<rparr>
                      else p\<lparr>recvTransport := Some tr\<rparr>)\<rparr>),
                None)))"

subsection \<open>Recording\<close>

text \<open>
  \<open>createRecordingInput\<close>, for the \<open>i\<close>-th producer of the start: the port is drawn
  first; the recording is touched only after every step that can throw, and an error is
  caught and logged.
\<close>

definition createRecordingInput ::
  "rec_env \<Rightarrow> nat \<Rightarrow> recording \<Rightarrow> producer \<Rightarrow> socket_id \<Rightarrow> recording" where
  "createRecordingInput env i r pr peerId =
     (let rtpPort = 20000 + math_floor (double_times (env_random env i) 9000)
      in case env_tap env i of
           None \<Rightarrow> r
         | Some (transportId, consumerId) \<Rightarrow>
             (let sdpFile = env_path_join env (env_recordings_dir env)
                    (rec_id r @ ''_'' @ kind_name (prod_kind pr) @ ''_'' @ peerId @ ''.sdp'');
                  r1 = r\<lparr>rec_transports := rec_transports r @ [\<lparr>pt_id = transportId, pt_port = rtpPort\<rparr>],
                         rec_consumers := rec_consumers r @
                           [\<lparr>rc_consumer = \<lparr>cons_id = consumerId, cons_producerId = prod_id pr,
                                             cons_kind = prod_kind pr, cons_paused = True\<rparr>,
                             rc_producerId = prod_id pr, rc_kind = prod_kind pr\<rparr>]\<rparr>;
                  input = \<lparr>in_port = rtpPort, in_sdpFile = sdpFile, in_peerId = peerId\<rparr>
              in if prod_kind pr = Audio
                 then r1\<lparr>rec_audioInputs := rec_audioInputs r1 @ [input]\<rparr>
                 else r1\<lparr>rec_videoInputs := rec_videoInputs r1 @ [input]\<rparr>))"

text \<open>The argument list that \<open>startCombinedRecording\<close> builds for the muxer.\<close>

definition ffmpeg_args :: "recording \<Rightarrow> string list" where
  "ffmpeg_args r =
     (let audioInputs = rec_audioInputs r;
          videoInputs = rec_videoInputs r;
          inputs = [''-y'', ''-protocol_whitelist'', ''file,udp,rtp'', ''-analyzeduration'', ''10000000'',
                    ''-probesize'', ''10000000'', ''-fflags'', ''+genpts+discardcorrupt'']
                   @ concat (map (\<lambda>i. [''-i'', in_sdpFile i]) audioInputs)
                   @ (if rec_hasVideo r then concat (map (\<lambda>i. [''-i'', in_sdpFile i]) videoInputs) else []);
          totalAudioInputs = length audioInputs;
          totalVideoInputs = length videoInputs;
          audioStreams = concat (map (\<lambda>i. ''['' @ string_of_nat i @ '':a]'') [0..<totalAudioInputs]);
          amix = audioStreams @ ''amix=inputs='' @ string_of_nat totalAudioInputs @ '':duration=longest[aout]''
      in if rec_hasVideo r \<and> totalVideoInputs > 0
         then inputs @
              [''-filter_complex'',
               (if totalAudioInputs > 1 then amix @ '';'' else ''[0:a]acopy[aout];'') @
               (if totalVideoInputs \<ge> 2
                then ''['' @ string_of_nat totalAudioInputs @ '':v]['' @ string_of_nat (totalAudioInputs + 1)
                       @ '':v]hstack=inputs=2[vout]''
                else if totalVideoInputs = 1
                then ''['' @ string_of_nat totalAudioInputs @ '':v]copy[vout]''
                else [])]
              @ [''-map'', ''[aout]'', ''-map'', ''[vout]'', ''-c:a'', ''aac'', ''-b:a'', ''192k'',
                 ''-c:v'', ''libx264'', ''-preset'', ''fast'', ''-crf'', ''23'', rec_outputFile r]
         else inputs @
              (if totalAudioInputs > 1 then [''-filter_complex'', amix, ''-map'', ''[aout]''] else [])
              @ [''-c:a'', ''libmp3lame'', ''-b:a'', ''192k'', rec_outputFile r])"

text \<open>The loop that resumes the recording consumers; it ends at the first error.\<close>

fun resume_consumers ::
  "(nat \<Rightarrow> js_error option) \<Rightarrow> nat \<Rightarrow> recording_consumer list \<Rightarrow> recording_consumer list \<times> js_error option" where
  "resume_consumers f i [] = ([], None)"
| "resume_consumers f i (c # cs) =
     (case f i of
        Some e \<Rightarrow> (c # cs, Some e)
      | None \<Rightarrow>
          (let (cs', res) = resume_consumers f (Suc i) cs
           in (c\<lparr>rc_consumer := (rc_consumer c)\<lparr>cons_paused := False\<rparr>\<rparr> # cs', res)))"

definition startCombinedRecording :: "rec_env \<Rightarrow> recording \<Rightarrow> recording \<times> js_error option" where
  "startCombinedRecording env r =
     (if length (rec_audioInputs r) = 0 then (r, None)
      else (case env_spawn env of
              Some e \<Rightarrow> (r, Some e)
            | None \<Rightarrow>
                (let r1 = r\<lparr>rec_ffmpegProcess := Some (ffmpeg_args r)\<rparr>;
                     (cs, res) = resume_consumers (env_resume env) 0 (rec_consumers r1)
                 in (r1\<lparr>rec_consumers := cs\<rparr>, res))))"

text \<open>
  The two nested loops of \<open>startRecording\<close> that look for a video producer, leaving at
  the first one found.
\<close>

fun video_among :: "(string \<times> producer) list \<Rightarrow> bool" where
  "video_among [] = False"
| "video_among ((producerId, pr) # rest) = (if prod_kind pr = Video then True else video_among rest)"

fun video_in_peers :: "(socket_id \<times> peer) list \<Rightarrow> bool" where
  "video_in_peers [] = False"
| "video_in_peers ((peerId, p) # rest) = (if video_among (producers p) then True else video_in_peers rest)"

text \<open>Every producer of the room with the id of its peer, in iteration order.\<close>

definition room_producers :: "media_room \<Rightarrow> (socket_id \<times> producer) list" where
  "room_producers room =
     concat (map (\<lambda>(peerId, p). map (\<lambda>(producerId, pr). (peerId, pr)) (producers p)) (mr_peers room))"

definition startRecording ::
  "rec_env \<Rightarrow> media_server \<Rightarrow> string \<Rightarrow> media_server \<times> (js_error + recording)" where
  "startRecording env ms roomId =
     (case map_get (media_rooms ms) roomId of
        None \<Rightarrow> (ms, Inl (room_not_found roomId))
      | Some room \<Rightarrow>
          (case mr_recording room of
             Some r \<Rightarrow> (ms, Inr r)
           | None \<Rightarrow>
               (let timestamp = env_now env;
                    recordingId = roomId @ ''_'' @ string_of_nat timestamp;
                    hasVideo = video_in_peers (mr_peers room);
                    outputFile = env_path_join env (env_recordings_dir env)
                       (recordingId @ ''.'' @ (if hasVideo then ''mp4'' else ''mp3''));
                    r0 = \<lparr>rec_id = recordingId, rec_startTime = timestamp, rec_outputFile = outputFile,
                          rec_hasVideo = hasVideo, rec_ffmpegProcess = None, rec_transports = [],
                          rec_consumers = [], rec_audioInputs = [], rec_videoInputs = []\<rparr>;
                    r1 = fold (\<lambda>(i, (peerId, pr)) r. createRecordingInput env i r pr peerId)
                           (enumerate 0 (room_producers room)) r0;
                    (r2, res) = startCombinedRecording env r1;
                    ms' = set_room ms roomId (room\<lparr>mr_recording := Some r2\<rparr>)
                in (case res of Some e \<Rightarrow> (ms', Inl e) | None \<Rightarrow> (ms', Inr r2)))))"

text \<open>The count of \<open>checkAndStartAutoRecording\<close>: peers with at least one producer.\<close>

definition peersWithProducers :: "media_room \<Rightarrow> nat" where
  "peersWithProducers room = length (filter (\<lambda>(peerId, p). length (producers p) > 0) (mr_peers room))"

definition checkAndStartAutoRecording ::
  "rec_env \<Rightarrow> media_server \<Rightarrow> string \<Rightarrow> media_server \<times> js_error option" where
  "checkAndStartAutoRecording env ms roomId =
     (case map_get (media_rooms ms) roomId of
        None \<Rightarrow> (ms, None)
      | Some room \<Rightarrow>
          if mr_recording room \<noteq> None then (ms, None)
          else if peersWithProducers room \<ge> 2
          then (case startRecording env ms roomId of
                  (ms', Inl e) \<Rightarrow> (ms', Some e)
                | (ms', Inr r) \<Rightarrow> (ms', None))
          else (ms, None))"

record stop_result =
  sr_id :: string
  sr_duration :: int
  sr_file :: string

datatype stop_outcome = NoRecording | Stopped stop_result | Waiting

text \<open>
  \<open>stopRecording\<close> up to its first \<open>await\<close>. With a muxer process it writes \<open>q\<close> to
  the muxer's input and waits two seconds: the call is then pending, and
  \<open>room.recording\<close> is still set. Without a muxer process, or when the write throws
  (\<open>quitThrows\<close>; the error is caught), nothing is awaited: the recording consumers and
  transports are closed, the SDP files deleted, and \<open>room.recording\<close> is set to \<open>null\<close>
  within the call.
\<close>

definition stopRecording ::
  "media_server \<Rightarrow> bool \<Rightarrow> timestamp \<Rightarrow> string \<Rightarrow> media_server \<times> stop_outcome" where
  "stopRecording ms quitThrows now roomId =
     (case map_get (media_rooms ms) roomId of
        None \<Rightarrow> (ms, NoRecording)
      | Some room \<Rightarrow>
          (case mr_recording room of
             None \<Rightarrow> (ms, NoRecording)
           | Some r \<Rightarrow>
               if rec_ffmpegProcess r \<noteq> None \<and> \<not> quitThrows
               then (ms\<lparr>pending_stops := pending_stops ms @ [(mr_object room, r)]\<rparr>, Waiting)
               else (set_room ms roomId (room\<lparr>mr_recording := None\<rparr>),
                     Stopped \<lparr>sr_id = rec_id r, sr_duration = int now - int (rec_startTime r),
                              sr_file = rec_outputFile r\<rparr>)))"


subsection \<open>Producing and consuming\<close>

text \<open>
  \<open>produce\<close>: \<open>created\<close> is what \<open>peer.sendTransport.produce\<close> gives, the id of the new
  producer or the error it throws. The producer is stored before the recording check,
  so it stays stored when the check fails. The transport id of the request is not
  used by the code, and the RTP parameters go to the library only.
\<close>

definition produce ::
  "rec_env \<Rightarrow> js_error + string \<Rightarrow> media_server \<Rightarrow> string \<Rightarrow> socket_id \<Rightarrow> media_kind
     \<Rightarrow> media_server \<times> (js_error + string)" where
  "produce env created ms roomId peerId kind =
     (case map_get (media_rooms ms) roomId of
        None \<Rightarrow> (ms, Inl (room_not_found roomId))
      | Some room \<Rightarrow>
          (case map_get (mr_peers room) peerId of
             None \<Rightarrow> (ms, Inl (peer_not_found peerId))
           | Some p \<Rightarrow>
               (case sendTransport p of
                  None \<Rightarrow> (ms, Inl (TypeError ''Cannot read properties of null (reading 'produce')''))
                | Some tr \<Rightarrow>
                    (case created of
                       Inl e \<Rightarrow> (ms, Inl e)
                     | Inr producerId \<Rightarrow>
                         (let pr = \<lparr>prod_id = producerId, prod_kind = kind, prod_peerId = peerId\<rparr>;
                              p1 = p\<lparr>producers := map_set (producers p) producerId pr\<rparr>;
                              ms1 = set_room ms roomId (room\<lparr>mr_peers := map_set (mr_peers room) peerId p1\<rparr>)
                          in (case checkAndStartAutoRecording env ms1 roomId of
                                (ms2, Some e) \<Rightarrow> (ms2, Inl e)
                              | (ms2, None) \<Rightarrow> (ms2, Inr producerId)))))))"

text \<open>The loop of \<open>consume\<close> that finds the producer and the first peer holding it.\<close>

fun find_producer :: "(socket_id \<times> peer) list \<Rightarrow> string \<Rightarrow> (socket_id \<times> producer) option" where
  "find_producer [] producerId = None"
| "find_producer ((ownerId, p) # rest) producerId =
     (case map_get (producers p) producerId of
        Some pr \<Rightarrow> Some (ownerId, pr)
      | None \<Rightarrow> find_producer rest producerId)"

record consumer_descriptor =
  cd_id :: string
  cd_producerId :: string
  cd_kind :: media_kind
  cd_appData_peerId :: socket_id

text \<open>
  \<open>consume\<close>: \<open>canConsume\<close> is the router's answer for the producer and the peer's
  capabilities, \<open>created\<close> what \<open>peer.recvTransport.consume\<close> gives (the id of the new
  consumer, or its error).
\<close>

definition consume ::
  "bool \<Rightarrow> js_error + string \<Rightarrow> media_server \<Rightarrow> string \<Rightarrow> socket_id \<Rightarrow> string
     \<Rightarrow> media_server \<times> (js_error + consumer_descriptor)" where
  "consume canConsume created ms roomId peerId producerId =
     (case map_get (media_rooms ms) roomId of
        None \<Rightarrow> (ms, Inl (room_not_found roomId))
      | Some room \<Rightarrow>
          (case map_get (mr_peers room) peerId of
             None \<Rightarrow> (ms, Inl (peer_not_found peerId))
           | Some p \<Rightarrow>
               (case find_producer (mr_peers room) producerId of
                  None \<Rightarrow> (ms, Inl (Error (''Producer '' @ producerId @ '' not found'')))
                | Some (producerOwnerId, pr) \<Rightarrow>
                    if producerOwnerId = peerId then (ms, Inl (Error ''Cannot consume own producer''))
                    else if \<not> canConsume then (ms, Inl (Error ''Cannot consume this producer''))
                    else (case recvTransport p of
                            None \<Rightarrow> (ms, Inl (TypeError ''Cannot read properties of null (reading 'consume')''))
                          | Some tr \<Rightarrow>
                              (case created of
                                 Inl e \<Rightarrow> (ms, Inl e)
                               | Inr consumerId \<Rightarrow>
                                   (let c = \<lparr>cons_id = consumerId, cons_producerId = producerId,
                                             cons_kind = prod_kind pr, cons_paused = True\<rparr>;
                                        p1 = p\<lparr>consumers := map_set (consumers p) consumerId c\<rparr>
                                    in (set_room ms roomId
                                          (room\<lparr>mr_peers := map_set (mr_peers room) peerId p1\<rparr>),
                                        Inr \<lparr>cd_id = consumerId, cd_producerId = producerId,
                                              cd_kind = prod_kind pr,
                                              cd_appData_peerId = prod_peerId pr\<rparr>)))))))"

subsection \<open>Leaving\<close>

text \<open>
  \<open>removePeer\<close>: \<open>stopRecording\<close> is called and not awaited, so \<open>removePeer\<close> goes on
  when \<open>stopRecording\<close> reaches its wait, and what \<open>stopRecording\<close> returns is dropped.
  The second component tells whether \<open>stopRecording\<close> was called.
\<close>

definition removePeer :: "media_server \<Rightarrow> bool \<Rightarrow> timestamp \<Rightarrow> socket_id \<Rightarrow> media_server \<times> bool" where
  "removePeer ms quitThrows now peerId =
     (case map_get (media_peers ms) peerId of
        None \<Rightarrow> (ms, False)
      | Some roomId \<Rightarrow>
          (case map_get (media_rooms ms) roomId of
             None \<Rightarrow> (ms\<lparr>media_peers := map_delete (media_peers ms) peerId\<rparr>, False)
           | Some room \<Rightarrow>
               (let room1 = room\<lparr>mr_peers := map_delete (mr_peers room) peerId\<rparr>;
                    ms1 = set_room ms roomId room1;
                    stop = (mr_recording room1 \<noteq> None \<and> length (mr_peers room1) < 2);
                    ms2 = (if stop then fst (stopRecording ms1 quitThrows now roomId) else ms1);
                    ms3 = (if length (mr_peers room1) = 0
                           then ms2\<lparr>media_rooms := map_delete (media_rooms ms2) roomId\<rparr> else ms2)
                in (ms3\<lparr>media_peers := map_delete (media_peers ms3) peerId\<rparr>, stop))))"

subsection \<open>Observations on a media server\<close>

definition recording_of :: "media_server \<Rightarrow> string \<Rightarrow> recording option" where
  "recording_of ms roomId =
     (case map_get (media_rooms ms) roomId of None \<Rightarrow> None | Some room \<Rightarrow> mr_recording room)"











text \<open>
  The producer is owned by the requesting peer itself: the room and the peer exist, the
  peer's \<open>producers\<close> map has the id, and no other peer's has it (the media library
  assigns producer ids, each once).
\<close>

definition owns_producer :: "media_server \<Rightarrow> string \<Rightarrow> socket_id \<Rightarrow> string \<Rightarrow> bool" where
  "owns_producer ms roomId peerId producerId =
     (case map_get (media_rooms ms) roomId of
        None \<Rightarrow> False
      | Some room \<Rightarrow>
          (case map_get (mr_peers room) peerId of
             None \<Rightarrow> False
           | Some p \<Rightarrow>
               map_has (producers p) producerId \<and>
               list_all (\<lambda>(ownerId, q). ownerId = peerId \<or> \<not> map_has (producers q) producerId)
                 (mr_peers room)))"

text \<open>Some peer of the room owns a producer of kind video.\<close>

definition owns_video :: "media_room \<Rightarrow> bool" where
  "owns_video room =
     (\<exists>(peerId, p) \<in> set (mr_peers room). \<exists>(producerId, pr) \<in> set (producers p). prod_kind pr = Video)"

text \<open>The UDP ports of the RTP taps of a recording.\<close>

definition tap_ports :: "recording \<Rightarrow> nat list" where
  "tap_ports r = map in_port (rec_audioInputs r @ rec_videoInputs r)"

text \<open>
  A port that is in the window \<open>20000..28999\<close> and comes from one of the first \<open>n\<close>
  random draws.
\<close>

definition port_ok :: "rec_env \<Rightarrow> nat \<Rightarrow> nat \<Rightarrow> bool" where
  "port_ok env n port =
     (20000 \<le> port \<and> port \<le> 28999 \<and> (\<exists>i < n. port = 20000 + math_floor (double_times (env_random env i) 9000)))"

section \<open>Presence: register_user and disconnect\<close>

text \<open>
  \<open>setOnlineStatus\<close>: \<open>UPDATE users SET is_online = $2, last_seen = CASE WHEN $2 = FALSE
  THEN NOW() ELSE last_seen END WHERE id = $1\<close>.
\<close>

definition setOnlineStatus :: "db \<Rightarrow> timestamp \<Rightarrow> uuid \<Rightarrow> bool \<Rightarrow> db" where
  "setOnlineStatus d now uid isOnline =
     d\<lparr>users := map (\<lambda>u. if u_id u = uid
                            then u\<lparr>u_is_online := isOnline,
                                   u_last_seen := (if \<not> isOnline then Some now else u_last_seen u)\<rparr>
                            else u) (users d)\<rparr>"

text \<open>The whole state of the server process.\<close>

record hub =
  hub_db :: db
  connectedUsers :: connected_users
  activeCalls :: active_calls
  mediaServer :: media_server

text \<open>
  \<open>register_user {userId, username}\<close>: the session is stored under the socket id, and
  with a truthy user id the user is set online.
\<close>

definition register_user :: "hub \<Rightarrow> timestamp \<Rightarrow> socket_id \<Rightarrow> uuid option \<Rightarrow> string option \<Rightarrow> hub" where
  "register_user h now sid userId username =
     (let h1 = h\<lparr>connectedUsers := map_set (connectedUsers h) sid
                    \<lparr>s_socketId = sid, s_userId = userId, s_username = username\<rparr>\<rparr>
      in case userId of
           None \<Rightarrow> h1
         | Some uid \<Rightarrow>
             if uid = [] then h1
             else h1\<lparr>hub_db := setOnlineStatus (hub_db h1) now uid True\<rparr>)"

text \<open>
  \<open>disconnect\<close>: the peer is removed from the media server (\<open>quitThrows\<close> is handed
  on to \<open>removePeer\<close>); if the session has a user id, that user is set offline; then
  the session is deleted. The sessions that remain are not looked at.
\<close>

definition disconnect :: "hub \<Rightarrow> bool \<Rightarrow> timestamp \<Rightarrow> socket_id \<Rightarrow> hub" where
  "disconnect h quitThrows now sid =
     (let h1 = h\<lparr>mediaServer := fst (removePeer (mediaServer h) quitThrows now sid)\<rparr>;
          h2 = (case session_user (connectedUsers h1) sid of
                  None \<Rightarrow> h1
                | Some uid \<Rightarrow> h1\<lparr>hub_db := setOnlineStatus (hub_db h1) now uid False\<rparr>)
      in h2\<lparr>connectedUsers := map_delete (connectedUsers h2) sid\<rparr>)"

text \<open>The \<open>is_online\<close> flag of a user, and the sockets registered for a user.\<close>

definition is_online :: "db \<Rightarrow> uuid \<Rightarrow> bool option" where
  "is_online d uid = map_option u_is_online (find_user d uid)"

definition sessions_of :: "connected_users \<Rightarrow> uuid \<Rightarrow> socket_id list" where
  "sessions_of cu uid = map fst (filter (\<lambda>kv. s_userId (snd kv) = Some uid) cu)"

section \<open>Room queries (db/queries/rooms.js) and start_private_chat\<close>

definition has_participant :: "db \<Rightarrow> uuid \<Rightarrow> uuid \<Rightarrow> bool" where
  "has_participant d roomId userId =
     (\<exists>rp \<in> set (room_participants d). rp_room_id rp = roomId \<and> rp_user_id rp = userId)"

text \<open>
  The \<open>SELECT\<close> of \<open>findOrCreatePrivate\<close> before its \<open>LIMIT 1\<close>: the private rooms in
  which both users have a participant row (whether or not they have left).
\<close>

definition private_rooms_of :: "db \<Rightarrow> uuid \<Rightarrow> uuid \<Rightarrow> room_row list" where
  "private_rooms_of d userIdA userIdB =
     filter (\<lambda>r. r_type r = Private \<and> has_participant d (r_id r) userIdA \<and>
                 has_participant d (r_id r) userIdB) (rooms d)"

text \<open>
  \<open>findOrCreatePrivate\<close> awaits two things one after the other: the \<open>SELECT .. LIMIT 1\<close>,
  and, when that finds no room, a transaction that inserts the room and the two
  participant rows. Each is one step of the database; other handlers can run between
  the two. SQL leaves open which room the query returns when there are several; the
  model takes the first of the table.
\<close>

definition selectPrivate :: "db \<Rightarrow> uuid \<Rightarrow> uuid \<Rightarrow> room_row option" where
  "selectPrivate d userIdA userIdB =
     (case private_rooms_of d userIdA userIdB of [] \<Rightarrow> None | r # others \<Rightarrow> Some r)"

text \<open>
  The transaction. The id the database generates for the room is a parameter. The room
  is inserted first (primary key, then the foreign key of \<open>created_by\<close>); the
  participant rows meet \<open>UNIQUE (room_id, user_id)\<close> as they are inserted and their
  foreign keys at the end of the statement. A violation rolls the transaction back and
  is thrown. Nothing but \<open>UNIQUE (room_id, user_id)\<close> constrains the participants, so a
  second private room for the same two users is accepted.
\<close>

definition insertPrivate ::
  "db \<Rightarrow> timestamp \<Rightarrow> uuid \<Rightarrow> uuid \<Rightarrow> uuid \<Rightarrow> uuid \<Rightarrow> db \<times> (db_error + room_row)" where
  "insertPrivate d now newId userIdA userIdB createdBy =
     (if newId \<in> set (map r_id (rooms d)) then (d, Inl UniqueViolation)
      else if \<not> user_exists d createdBy then (d, Inl ForeignKeyViolation)
      else if has_participant d newId userIdA \<or> has_participant d newId userIdB \<or> userIdA = userIdB
      then (d, Inl UniqueViolation)
      else if \<not> user_exists d userIdA \<or> \<not> user_exists d userIdB then (d, Inl ForeignKeyViolation)
      else (let room = \<lparr>r_id = newId, r_type = Private, r_name = None, r_created_at = now,
                          r_created_by = Some createdBy\<rparr>;
                member = (\<lambda>uid. \<lparr>rp_room_id = newId, rp_user_id = uid, rp_role = ''member'',
                                  rp_joined_at = now, rp_left_at = None\<rparr>)
            in (d\<lparr>rooms := rooms d @ [room],
                  room_participants := room_participants d @ [member userIdA, member userIdB]\<rparr>,
                Inr room)))"

record participant =
  p_id :: uuid
  p_username :: string
  p_profile_picture :: "string option"
  p_is_online :: bool
  p_role :: string
  p_joined_at :: timestamp

text \<open>
  \<open>getParticipants\<close>: the active participants of the room joined with their users,
  ordered by \<open>joined_at\<close> (rows with equal time stamps keep their table order here).
\<close>

definition getParticipants :: "db \<Rightarrow> uuid \<Rightarrow> participant list" where
  "getParticipants d roomId =
     sort_key p_joined_at
       (concat (map (\<lambda>rp. case find_user d (rp_user_id rp) of
                            None \<Rightarrow> []
                          | Some u \<Rightarrow> [\<lparr>p_id = u_id u, p_username = u_username u,
                                        p_profile_picture = u_profile_picture u,
                                        p_is_online = u_is_online u, p_role = rp_role rp,
                                        p_joined_at = rp_joined_at rp\<rparr>])
                    (filter (\<lambda>rp. rp_room_id rp = roomId \<and> rp_left_at rp = None)
                       (room_participants d))))"

record private_chat_ack =
  ack_room :: room_row
  ack_participants :: "participant list"
  ack_otherUser :: "participant option"
  ack_created :: bool

text \<open>
  \<open>start_private_chat {targetUserId, userId}\<close> is an asynchronous handler: it calls
  \<open>findOrCreatePrivate(userId, targetUserId, userId)\<close>, then \<open>getParticipants\<close>, and
  acknowledges with the room, its participants, the other user and \<open>created\<close>, or with
  the error. A call of the handler is at one of its awaits or has acknowledged.
\<close>

datatype chat_task =
    AwaitSelect
  | AwaitInsert
  | AwaitParticipants room_row bool
  | Acked "db_error + private_chat_ack"

text \<open>
  A call: the clock and the id the database would generate for it, the payload
  \<open>(targetUserId, userId)\<close>, and where the call is. One step of a call is the database
  answering what the call awaits.
\<close>

type_synonym chat_call = "(timestamp \<times> uuid \<times> uuid \<times> uuid) \<times> chat_task"

fun chat_step :: "db \<Rightarrow> chat_call \<Rightarrow> db \<times> chat_call" where
  "chat_step d ((now, newId, targetUserId, userId), AwaitSelect) =
     (case selectPrivate d userId targetUserId of
        Some room \<Rightarrow> (d, ((now, newId, targetUserId, userId), AwaitParticipants room False))
      | None \<Rightarrow> (d, ((now, newId, targetUserId, userId), AwaitInsert)))"
| "chat_step d ((now, newId, targetUserId, userId), AwaitInsert) =
     (case insertPrivate d now newId userId targetUserId userId of
        (d', Inl err) \<Rightarrow> (d', ((now, newId, targetUserId, userId), Acked (Inl err)))
      | (d', Inr room) \<Rightarrow> (d', ((now, newId, targetUserId, userId), AwaitParticipants room True)))"
| "chat_step d ((now, newId, targetUserId, userId), AwaitParticipants room created) =
     (let participants = getParticipants d (r_id room)
      in (d, ((now, newId, targetUserId, userId),
              Acked (Inr \<lparr>ack_room = room, ack_participants = participants,
                           ack_otherUser = find (\<lambda>p. p_id p \<noteq> userId) participants,
                           ack_created = created\<rparr>))))"
| "chat_step d ((now, newId, targetUserId, userId), Acked ack) =
     (d, ((now, newId, targetUserId, userId), Acked ack))"

text \<open>
  The server runs the calls that are in flight in any interleaving of their steps: a
  schedule names, step by step, the call whose awaited answer arrives next.
\<close>

fun run_schedule :: "db \<Rightarrow> chat_call list \<Rightarrow> nat list \<Rightarrow> db \<times> chat_call list" where
  "run_schedule d inflight [] = (d, inflight)"
| "run_schedule d inflight (i # schedule) =
     (if i < length inflight
      then (case chat_step d (inflight ! i) of
              (d', call') \<Rightarrow> run_schedule d' (inflight[i := call']) schedule)
      else run_schedule d inflight schedule)"

definition new_call :: "timestamp \<Rightarrow> uuid \<Rightarrow> uuid \<Rightarrow> uuid \<Rightarrow> chat_call" where
  "new_call now newId targetUserId userId = ((now, newId, targetUserId, userId), AwaitSelect)"

text \<open>The room id and the \<open>created\<close> flag that a call has acknowledged.\<close>

fun acked_room_id :: "chat_call \<Rightarrow> uuid option" where
  "acked_room_id (payload, Acked (Inr ack)) = Some (r_id (ack_room ack))"
| "acked_room_id (payload, task) = None"

fun acked_created :: "chat_call \<Rightarrow> bool option" where
  "acked_created (payload, Acked (Inr ack)) = Some (ack_created ack)"
| "acked_created (payload, task) = None"

section \<open>User queries (db/queries/users.js) and the REST routes\<close>

text \<open>
  A row that a query returns is a JavaScript object with one property per column, in
  the order of the columns.
\<close>

datatype json = JNull | JString string | JBool bool | JDate timestamp

type_synonym js_object = "(string \<times> json) list"

fun json_opt :: "string option \<Rightarrow> json" where
  "json_opt None = JNull"
| "json_opt (Some s) = JString s"

definition user_object :: "user_row \<Rightarrow> js_object" where
  "user_object u =
     [(''id'', JString (u_id u)), (''username'', JString (u_username u)),
      (''email'', json_opt (u_email u)), (''phone_number'', json_opt (u_phone_number u)),
      (''password'', JString (u_password u)),
      (''profile_picture'', json_opt (u_profile_picture u)),
      (''role'', JString (u_role u)), (''status'', JString (u_status u)),
      (''is_online'', JBool (u_is_online u)),
      (''last_seen'', (case u_last_seen u of None \<Rightarrow> JNull | Some t \<Rightarrow> JDate t)),
      (''created_at'', JDate (u_created_at u))]"

text \<open>
  \<open>sanitize(user)\<close>: \<open>null\<close> for a falsy argument, otherwise the object without its
  \<open>password\<close> property (\<open>const { password, ...safe } = user\<close>).
\<close>

definition sanitize :: "js_object option \<Rightarrow> js_object option" where
  "sanitize user = (case user of None \<Rightarrow> None | Some u \<Rightarrow> Some (map_delete u ''password''))"

definition findByUsername :: "db \<Rightarrow> string \<Rightarrow> user_row option" where
  "findByUsername d name = find (\<lambda>u. u_username u = name) (users d)"

text \<open>
  \<open>create\<close>, as \<open>register\<close> calls it (username, email and password only): the other
  columns get their defaults; the \<open>UNIQUE\<close> constraints on id, username and email
  apply. The generated id is a parameter.
\<close>

definition users_create ::
  "db \<Rightarrow> timestamp \<Rightarrow> uuid \<Rightarrow> string \<Rightarrow> string option \<Rightarrow> string \<Rightarrow> db_error + (db \<times> user_row)" where
  "users_create d now newId name mail pw =
     (let mail' = (if truthy mail then mail else None)
      in if newId \<in> set (map u_id (users d)) \<or> name \<in> set (map u_username (users d)) \<or>
            (mail' \<noteq> None \<and> mail' \<in> set (map u_email (users d)))
         then Inl UniqueViolation
         else (let u = \<lparr>u_id = newId, u_username = name, u_email = mail', u_phone_number = None,
                         u_password = pw, u_profile_picture = None, u_role = ''user'',
                         u_status = ''pending'', u_is_online = False, u_last_seen = None,
                         u_created_at = now\<rparr>
               in Inr (d\<lparr>users := users d @ [u]\<rparr>, u)))"

text \<open>\<open>setStatus(id, status)\<close> of the user queries: the updated row, or \<open>null\<close>.\<close>

definition users_setStatus :: "db \<Rightarrow> uuid \<Rightarrow> string \<Rightarrow> db \<times> user_row option" where
  "users_setStatus d uid st =
     (let d' = d\<lparr>users := map (\<lambda>u. if u_id u = uid then u\<lparr>u_status := st\<rparr> else u) (users d)\<rparr>
      in (d', find_user d' uid))"

text \<open>
  The paginated lists. A negative \<open>LIMIT\<close> or \<open>OFFSET\<close> is an error of the query; rows
  with equal \<open>created_at\<close> keep their table order here.
\<close>

definition paginate :: "int \<Rightarrow> int \<Rightarrow> 'a list \<Rightarrow> db_error + 'a list" where
  "paginate limit offset rows =
     (if limit < 0 \<or> offset < 0 then Inl InvalidLimit
      else Inr (take (nat limit) (drop (nat offset) rows)))"

definition listByStatus :: "db \<Rightarrow> string \<Rightarrow> int \<Rightarrow> int \<Rightarrow> db_error + user_row list" where
  "listByStatus d st limit offset =
     paginate limit offset (sort_key u_created_at (filter (\<lambda>u. u_status u = st) (users d)))"

definition listAll :: "db \<Rightarrow> int \<Rightarrow> int \<Rightarrow> db_error + user_row list" where
  "listAll d limit offset = paginate limit offset (rev (sort_key u_created_at (users d)))"

text \<open>
  What the routes answer: a status code and a JSON body, which is \<open>{error}\<close>,
  \<open>{user, token}\<close>, \<open>{users}\<close> or \<open>{user}\<close>.
\<close>

datatype response_body =
    ErrorBody string
  | UserTokenBody "js_object option" string
  | UsersBody "js_object option list"
  | UserBody "js_object option"

record response =
  res_status :: nat
  res_body :: response_body

definition respond :: "nat \<Rightarrow> response_body \<Rightarrow> response" where
  "respond code b = \<lparr>res_status = code, res_body = b\<rparr>"

text \<open>
  The token library: \<open>jwt.sign\<close> for a user id, and \<open>jwt.verify\<close>, which gives the user
  id of a valid token.
\<close>

record jwt =
  signToken :: "uuid \<Rightarrow> string"
  verifyToken :: "string \<Rightarrow> uuid option"

record credentials =
  body_username :: "string option"
  body_email :: "string option"
  body_password :: "string option"

definition internal_error :: response where
  "internal_error = respond 500 (ErrorBody ''Internal server error'')"

text \<open>\<open>POST /api/auth/register\<close>.\<close>

definition register :: "jwt \<Rightarrow> db \<Rightarrow> timestamp \<Rightarrow> uuid \<Rightarrow> credentials \<Rightarrow> db \<times> response" where
  "register tok d now newId b =
     (case (body_username b, body_password b) of
        (Some name, Some pw) \<Rightarrow>
          if name = [] \<or> pw = []
          then (d, respond 400 (ErrorBody ''Username and password are required''))
          else (case findByUsername d name of
                  Some existing \<Rightarrow> (d, respond 409 (ErrorBody ''Username already taken''))
                | None \<Rightarrow>
                    (case users_create d now newId name (body_email b) pw of
                       Inl err \<Rightarrow> (d, internal_error)
                     | Inr (d', user) \<Rightarrow>
                         (d', respond 201
                                (UserTokenBody (sanitize (Some (user_object user)))
                                   (signToken tok (u_id user))))))
      | other \<Rightarrow> (d, respond 400 (ErrorBody ''Username and password are required'')))"

text \<open>
  \<open>POST /api/auth/login\<close>: the user in the answer is the row as it was read, before
  \<open>setOnlineStatus\<close>.
\<close>

definition login :: "jwt \<Rightarrow> db \<Rightarrow> timestamp \<Rightarrow> credentials \<Rightarrow> db \<times> response" where
  "login tok d now b =
     (case (body_username b, body_password b) of
        (Some name, Some pw) \<Rightarrow>
          if name = [] \<or> pw = []
          then (d, respond 400 (ErrorBody ''Username and password are required''))
          else (case findByUsername d name of
                  None \<Rightarrow> (d, respond 401 (ErrorBody ''Invalid credentials''))
                | Some user \<Rightarrow>
                    if pw \<noteq> u_password user then (d, respond 401 (ErrorBody ''Invalid credentials''))
                    else if u_status user = ''pending''
                    then (d, respond 403 (ErrorBody ''Account pending admin approval''))
                    else if u_status user = ''rejected''
                    then (d, respond 403 (ErrorBody ''Account has been rejected''))
                    else (setOnlineStatus d now (u_id user) True,
                          respond 200 (UserTokenBody (sanitize (Some (user_object user)))
                                         (signToken tok (u_id user)))))
      | other \<Rightarrow> (d, respond 400 (ErrorBody ''Username and password are required'')))"

text \<open>
  \<open>authMiddleware\<close> and \<open>adminMiddleware\<close>: the answer that ends the request, or the
  admin's user id. The token is what follows the first space of the header, up to the
  next one.
\<close>

definition authMiddleware :: "jwt \<Rightarrow> string option \<Rightarrow> response + uuid" where
  "authMiddleware tok header =
     (case header of
        None \<Rightarrow> Inl (respond 401 (ErrorBody ''Missing or malformed token''))
      | Some h \<Rightarrow>
          if take 7 h \<noteq> ''Bearer '' then Inl (respond 401 (ErrorBody ''Missing or malformed token''))
          else (case verifyToken tok (takeWhile (\<lambda>c. c \<noteq> CHR '' '') (drop 7 h)) of
                  None \<Rightarrow> Inl (respond 401 (ErrorBody ''Invalid or expired token''))
                | Some uid \<Rightarrow> Inr uid))"

definition adminMiddleware :: "db \<Rightarrow> uuid \<Rightarrow> response + uuid" where
  "adminMiddleware d userId =
     (case find_user d userId of
        None \<Rightarrow> Inl (respond 403 (ErrorBody ''Admin access required''))
      | Some user \<Rightarrow>
          if u_role user \<noteq> ''admin'' then Inl (respond 403 (ErrorBody ''Admin access required''))
          else Inr userId)"

definition admin_only :: "jwt \<Rightarrow> db \<Rightarrow> string option \<Rightarrow> (db \<times> response) \<Rightarrow> db \<times> response" where
  "admin_only tok d header handler =
     (case authMiddleware tok header of
        Inl r \<Rightarrow> (d, r)
      | Inr userId \<Rightarrow>
          (case adminMiddleware d userId of
             Inl r \<Rightarrow> (d, r)
           | Inr adminId \<Rightarrow> handler))"

text \<open>
  \<open>parseInt(req.query.limit, 10) || 50\<close> and \<open>parseInt(req.query.offset, 10) || 0\<close>: the
  argument is what \<open>parseInt\<close> gives, nothing for \<open>NaN\<close>.
\<close>

definition or_default :: "int option \<Rightarrow> int \<Rightarrow> int" where
  "or_default parsed dflt = (case parsed of None \<Rightarrow> dflt | Some n \<Rightarrow> if n = 0 then dflt else n)"

definition users_response :: "db_error + user_row list \<Rightarrow> response" where
  "users_response rows =
     (case rows of
        Inl err \<Rightarrow> internal_error
      | Inr us \<Rightarrow> respond 200 (UsersBody (map (\<lambda>u. sanitize (Some (user_object u))) us)))"

text \<open>\<open>GET /api/admin/users/pending\<close> and \<open>GET /api/admin/users\<close>.\<close>

definition admin_list_pending ::
  "jwt \<Rightarrow> db \<Rightarrow> string option \<Rightarrow> int option \<Rightarrow> int option \<Rightarrow> db \<times> response" where
  "admin_list_pending tok d header limit offset =
     admin_only tok d header
       (d, users_response (listByStatus d ''pending'' (or_default limit 50) (or_default offset 0)))"

definition admin_list_users ::
  "jwt \<Rightarrow> db \<Rightarrow> string option \<Rightarrow> int option \<Rightarrow> int option \<Rightarrow> db \<times> response" where
  "admin_list_users tok d header limit offset =
     admin_only tok d header
       (d, users_response (listAll d (or_default limit 50) (or_default offset 0)))"

text \<open>\<open>POST /api/admin/users/:id/approve\<close> and \<open>.../reject\<close>.\<close>

definition set_status_response :: "db \<Rightarrow> uuid \<Rightarrow> string \<Rightarrow> db \<times> response" where
  "set_status_response d uid st =
     (case users_setStatus d uid st of
        (d', None) \<Rightarrow> (d', respond 404 (ErrorBody ''User not found''))
      | (d', Some user) \<Rightarrow> (d', respond 200 (UserBody (sanitize (Some (user_object user))))))"

definition admin_approve :: "jwt \<Rightarrow> db \<Rightarrow> string option \<Rightarrow> uuid \<Rightarrow> db \<times> response" where
  "admin_approve tok d header uid = admin_only tok d header (set_status_response d uid ''active'')"

definition admin_reject :: "jwt \<Rightarrow> db \<Rightarrow> string option \<Rightarrow> uuid \<Rightarrow> db \<times> response" where
  "admin_reject tok d header uid = admin_only tok d header (set_status_response d uid ''rejected'')"

text \<open>The requests to the routes that answer with users, and their dispatch.\<close>

datatype rest_request =
    PostRegister credentials
  | PostLogin credentials
  | GetAdminPending "string option" "int option" "int option"
  | GetAdminUsers "string option" "int option" "int option"
  | PostApprove "string option" uuid
  | PostReject "string option" uuid

fun rest_route :: "jwt \<Rightarrow> db \<Rightarrow> timestamp \<Rightarrow> uuid \<Rightarrow> rest_request \<Rightarrow> db \<times> response" where
  "rest_route tok d now newId (PostRegister b) = register tok d now newId b"
| "rest_route tok d now newId (PostLogin b) = login tok d now b"
| "rest_route tok d now newId (GetAdminPending header limit offset) = admin_list_pending tok d header limit offset"
| "rest_route tok d now newId (GetAdminUsers header limit offset) = admin_list_users tok d header limit offset"
| "rest_route tok d now newId (PostApprove header uid) = admin_approve tok d header uid"
| "rest_route tok d now newId (PostReject header uid) = admin_reject tok d header uid"

text \<open>The user objects that a response body holds.\<close>

fun body_users :: "response_body \<Rightarrow> js_object option list" where
  "body_users (ErrorBody msg) = []"
| "body_users (UserTokenBody u token) = [u]"
| "body_users (UsersBody us) = us"
| "body_users (UserBody u) = [u]"

text \<open>
  The object is a user row without its password: it has no \<open>password\<close> property and
  every other property has the value of the row's column.
\<close>

definition row_without_password :: "user_row \<Rightarrow> js_object option \<Rightarrow> bool" where
  "row_without_password u obj =
     (case obj of
        None \<Rightarrow> False
      | Some ob \<Rightarrow>
          map_get ob ''password'' = None \<and>
          (\<forall>k. k \<noteq> ''password'' \<longrightarrow> map_get ob k = map_get (user_object u) k) \<and>
          ob = map_delete (user_object u) ''password'')"

text \<open>
  The object is the sanitized object of a row that the user table holds before or after
  the request.
\<close>

definition sanitized_from :: "db \<Rightarrow> db \<Rightarrow> js_object option \<Rightarrow> bool" where
  "sanitized_from d d' obj =
     (\<exists>u. (u \<in> set (users d) \<or> u \<in> set (users d')) \<and>
          obj = sanitize (Some (user_object u)) \<and> row_without_password u obj)"

section \<open>Example states\<close>

definition example_user :: "uuid \<Rightarrow> string \<Rightarrow> string \<Rightarrow> user_row" where
  "example_user uid name pw =
     \<lparr>u_id = uid, u_username = name, u_email = None, u_phone_number = None, u_password = pw,
      u_profile_picture = None, u_role = ''user'', u_status = ''active'', u_is_online = False,
      u_last_seen = None, u_created_at = 1\<rparr>"

definition example_message :: "uuid \<Rightarrow> uuid \<Rightarrow> uuid \<Rightarrow> timestamp \<Rightarrow> message_row" where
  "example_message mid rid sender t =
     \<lparr>m_id = mid, m_room_id = rid, m_sender_id = Some sender, m_content = Some ''hi'',
      m_message_type = ''text'', m_file_url = None, m_created_at = t, m_edited_at = None\<rparr>"

text \<open>
  Alice has sent \<open>m1\<close> and \<open>m2\<close> to room \<open>r1\<close>; Bob and Carol are recipients, Bob
  is connected on socket \<open>s-bob\<close>.
\<close>

definition chat_db :: db where
  "chat_db = empty_db\<lparr>
     users := [example_user ''u-alice'' ''alice'' ''pw-a'', example_user ''u-bob'' ''bob'' ''pw-b'',
               example_user ''u-carol'' ''carol'' ''pw-c''],
     messages := [example_message ''m1'' ''r1'' ''u-alice'' 5, example_message ''m2'' ''r1'' ''u-alice'' 6],
     message_status :=
       [\<lparr>ms_message_id = ''m1'', ms_user_id = ''u-bob'', ms_status = Read, ms_updated_at = 7\<rparr>,
        \<lparr>ms_message_id = ''m1'', ms_user_id = ''u-carol'', ms_status = Delivered, ms_updated_at = 8\<rparr>]\<rparr>"

definition chat_sessions :: connected_users where
  "chat_sessions =
     [(''s-bob'', \<lparr>s_socketId = ''s-bob'', s_userId = Some ''u-bob'', s_username = Some ''bob''\<rparr>)]"

text \<open>
  Alice, connected on \<open>s-alice\<close>, has called in room \<open>r1\<close>: the state \<open>call_user\<close>
  leaves, a ringing call \<open>c1\<close> that nobody has answered.
\<close>

definition call_sessions :: connected_users where
  "call_sessions =
     [(''s-alice'', \<lparr>s_socketId = ''s-alice'', s_userId = Some ''u-alice'', s_username = Some ''alice''\<rparr>),
      (''s-bob'', \<lparr>s_socketId = ''s-bob'', s_userId = Some ''u-bob'', s_username = Some ''bob''\<rparr>)]"

definition call_db0 :: db where
  "call_db0 = empty_db\<lparr>
     users := [example_user ''u-alice'' ''alice'' ''pw-a'', example_user ''u-bob'' ''bob'' ''pw-b''],
     rooms := [\<lparr>r_id = ''r1'', r_type = Private, r_name = None, r_created_at = 2,
                r_created_by = Some ''u-alice''\<rparr>]\<rparr>"

definition ringing_state :: "db \<times> active_calls" where
  "ringing_state = call_user call_db0 [] call_sessions 20 ''c1'' ''s-alice'' (Some ''r1'') False"

text \<open>
  A media room \<open>r1\<close> on a server with two workers: Alice joins, gets transports and
  produces audio; Bob joins and gets transports. In the example surroundings
  \<open>Math.random()\<close> always gives one half.
\<close>

definition example_env :: rec_env where
  "example_env =
     \<lparr>env_now = 1700000000000, env_random = (\<lambda>i. (1, 1)),
      env_tap = (\<lambda>i. Some (''pt'' @ string_of_nat i, ''rc'' @ string_of_nat i)),
      env_spawn = None, env_resume = (\<lambda>i. None),
      env_path_join = (\<lambda>dir file. dir @ ''/'' @ file),
      env_recordings_dir = ''/srv/recordings''\<rparr>"

definition with_transports :: "media_server \<Rightarrow> string \<Rightarrow> socket_id \<Rightarrow> media_server" where
  "with_transports ms roomId peerId =
     fst (storePeerTransport
            (fst (storePeerTransport ms roomId peerId \<lparr>t_id = peerId @ ''-send''\<rparr> ''send''))
            roomId peerId \<lparr>t_id = peerId @ ''-recv''\<rparr> ''recv'')"

definition media_alice :: media_server where
  "media_alice =
     fst (produce example_env (Inr ''p-alice'')
            (with_transports
               (addPeer \<lparr>numWorkers = 2, nextWorkerIndex = 0, nextObject = 0, media_rooms = [],
                          media_peers = [], pending_stops = []\<rparr>
                  100 ''r1'' ''s-alice'' ''alice'')
               ''r1'' ''s-alice'')
            ''r1'' ''s-alice'' Audio)"

definition media_alice_bob :: media_server where
  "media_alice_bob = with_transports (addPeer media_alice 101 ''r1'' ''s-bob'' ''bob'') ''r1'' ''s-bob''"

definition media_recording :: media_server where
  "media_recording =
     fst (produce example_env (Inr ''p-bob'') media_alice_bob ''r1'' ''s-bob'' Audio)"

text \<open>
  The same room with no recording: Alice and Bob each own an audio producer. In the
  second room Bob also sends video.
\<close>

definition example_peer :: "socket_id \<Rightarrow> string \<Rightarrow> (string \<times> media_kind) list \<Rightarrow> peer" where
  "example_peer peerId name prods =
     \<lparr>peer_id = peerId, peer_username = name,
      sendTransport = Some \<lparr>t_id = peerId @ ''-send''\<rparr>,
      recvTransport = Some \<lparr>t_id = peerId @ ''-recv''\<rparr>,
      producers = map (\<lambda>(producerId, kind).
          (producerId, \<lparr>prod_id = producerId, prod_kind = kind, prod_peerId = peerId\<rparr>)) prods,
      consumers = [], rtpCapabilities = None\<rparr>"

definition audio_room :: media_room where
  "audio_room =
     \<lparr>mr_id = ''r1'', mr_object = 0, mr_router = 0,
      mr_peers = [(''s-alice'', example_peer ''s-alice'' ''alice'' [(''p-alice'', Audio)]),
                  (''s-bob'', example_peer ''s-bob'' ''bob'' [(''p-bob'', Audio)])],
      mr_recording = None, mr_createdAt = 100\<rparr>"

definition video_room :: media_room where
  "video_room =
     \<lparr>mr_id = ''r2'', mr_object = 1, mr_router = 1,
      mr_peers = [(''s-alice'', example_peer ''s-alice'' ''alice'' [(''p-alice'', Audio)]),
                  (''s-bob'', example_peer ''s-bob'' ''bob'' [(''p-bob'', Audio), (''p-bob-v'', Video)])],
      mr_recording = None, mr_createdAt = 100\<rparr>"

definition media_idle :: media_server where
  "media_idle =
     \<lparr>numWorkers = 2, nextWorkerIndex = 0, nextObject = 2,
      media_rooms = [(''r1'', audio_room), (''r2'', video_room)],
      media_peers = [(''s-alice'', ''r2''), (''s-bob'', ''r2'')], pending_stops = []\<rparr>"

text \<open>
  Bob registers on two sockets, one after the other, with nobody else connected.
\<close>

definition hub0 :: hub where
  "hub0 = \<lparr>hub_db = call_db0, connectedUsers = [], activeCalls = [],
            mediaServer = \<lparr>numWorkers = 2, nextWorkerIndex = 0, nextObject = 0, media_rooms = [],
                            media_peers = [], pending_stops = []\<rparr>\<rparr>"

definition hub_two_sessions :: hub where
  "hub_two_sessions =
     register_user (register_user hub0 30 ''s-bob-phone'' (Some ''u-bob'') (Some ''bob''))
       31 ''s-bob-laptop'' (Some ''u-bob'') (Some ''bob'')"

text \<open>
  A user table with an administrator, and a token library whose tokens are the user
  ids behind a prefix.
\<close>

definition rest_db :: db where
  "rest_db = empty_db\<lparr>users :=
     [(example_user ''u-root'' ''root'' ''pw-root'')\<lparr>u_role := ''admin''\<rparr>,
      example_user ''u-alice'' ''alice'' ''pw-a'',
      (example_user ''u-dave'' ''dave'' ''pw-d'')\<lparr>u_status := ''pending'', u_created_at := 3\<rparr>]\<rparr>"

definition example_jwt :: jwt where
  "example_jwt = \<lparr>signToken = (\<lambda>uid. ''tok:'' @ uid),
                  verifyToken = (\<lambda>t. if take 4 t = ''tok:'' then Some (drop 4 t) else None)\<rparr>"


text \<open>
  Two \<open>start_private_chat\<close> calls in flight at once, in a database that holds Alice and
  Bob and no room: Alice's call for Bob and Bob's call for Alice.
\<close>

definition two_users_db :: db where
  "two_users_db = empty_db\<lparr>
     users := [example_user ''u-alice'' ''alice'' ''pw-a'', example_user ''u-bob'' ''bob'' ''pw-b'']\<rparr>"

definition crossing_calls :: "chat_call list" where
  "crossing_calls =
     [new_call 50 ''n1'' ''u-bob'' ''u-alice'', new_call 51 ''n2'' ''u-alice'' ''u-bob'']"

section \<open>Verified properties\<close>

subsection \<open>Chat receipts and history\<close>

lemma find_map_keep:
  assumes "\<And>x. P (f x) = P x"
  shows "find P (map f xs) = map_option f (find P xs)"
  using assms by (induction xs) auto

lemma find_append_rows:
  "find P (xs @ ys) = (case find P xs of None \<Rightarrow> find P ys | Some x \<Rightarrow> Some x)"
  by (induction xs) auto

lemma has_status_row_find:
  "has_status_row d mid uid =
     (find (\<lambda>ms. ms_message_id ms = mid \<and> ms_user_id ms = uid) (message_status d) \<noteq> None)"
  by (auto simp: has_status_row_def find_None_iff)

lemma has_status_row_status_of:
  "has_status_row d mid uid = (status_of d mid uid \<noteq> None)"
  by (simp add: has_status_row_find status_of_def)

lemma status_of_setStatus:
  assumes "setStatus d now mid uid st = Inr d'"
  shows "status_of d' m u = (if m = mid \<and> u = uid then Some st else status_of d m u)"
proof (cases "has_status_row d mid uid")
  case True
  let ?f = "\<lambda>ms. if ms_message_id ms = mid \<and> ms_user_id ms = uid
                 then ms\<lparr>ms_status := st, ms_updated_at := now\<rparr> else ms"
  have d': "message_status d' = map ?f (message_status d)"
    using assms True by (auto simp: setStatus_def)
  let ?K = "\<lambda>ms. ms_message_id ms = m \<and> ms_user_id ms = u"
  have old: "find ?K (map ?f (message_status d)) = map_option ?f (find ?K (message_status d))"
    using find_map_keep [where P = ?K and f = ?f and xs = "message_status d"] by simp
  have "status_of d' m u = map_option (ms_status \<circ> ?f)
          (find (\<lambda>ms. ms_message_id ms = m \<and> ms_user_id ms = u) (message_status d))"
    unfolding status_of_def d' old by (simp add: option.map_comp)
  also have "\<dots> = (if m = mid \<and> u = uid then Some st else status_of d m u)"
    using True
    by (cases "find (\<lambda>ms. ms_message_id ms = m \<and> ms_user_id ms = u) (message_status d)")
       (auto simp: status_of_def has_status_row_find dest: find_Some_iff [THEN iffD1])
  finally show ?thesis .
next
  case False
  then have d': "message_status d' = message_status d @
      [\<lparr>ms_message_id = mid, ms_user_id = uid, ms_status = st, ms_updated_at = now\<rparr>]"
    using assms by (auto simp: setStatus_def split: if_splits)
  from False show ?thesis
    unfolding status_of_def d'
    by (auto simp: find_append_rows has_status_row_find split: option.splits
             dest: find_Some_iff [THEN iffD1])
qed

lemma status_of_markRoomAs:
  assumes "markRoomAs d now rid uid st = Inr d'"
  shows "status_of d' m u = status_of d m u \<or> status_of d' m u = Some st"
proof -
  define sel where "sel = map m_id (filter (\<lambda>m. m_room_id m = rid \<and>
                    (case m_sender_id m of None \<Rightarrow> False | Some s \<Rightarrow> s \<noteq> uid)) (messages d))"
  define fresh where "fresh = filter (\<lambda>mid. \<not> has_status_row d mid uid) sel"
  let ?f = "\<lambda>ms. if ms_user_id ms = uid \<and> ms_message_id ms \<in> set sel \<and> ms_status ms \<noteq> st
                 then ms\<lparr>ms_status := st, ms_updated_at := now\<rparr> else ms"
  let ?new = "map (\<lambda>mid. \<lparr>ms_message_id = mid, ms_user_id = uid, ms_status = st,
                                ms_updated_at = now\<rparr>) fresh"
  let ?K = "\<lambda>ms. ms_message_id ms = m \<and> ms_user_id ms = u"
  have d': "message_status d' = map ?f (message_status d) @ ?new"
    using assms by (auto simp: markRoomAs_def Let_def sel_def fresh_def split: if_splits)
  have old: "find ?K (map ?f (message_status d)) = map_option ?f (find ?K (message_status d))"
    using find_map_keep [where P = ?K and f = ?f and xs = "message_status d"] by simp
  show ?thesis
  proof (cases "find ?K (message_status d)")
    case None
    have "find ?K ?new = None \<or> map_option ms_status (find ?K ?new) = Some st"
      by (cases "find ?K ?new") (auto dest!: find_Some_iff [THEN iffD1])
    with None show ?thesis
      unfolding status_of_def d' by (auto simp: find_append_rows old)
  next
    case (Some r)
    then show ?thesis
      unfolding status_of_def d' by (simp add: find_append_rows old)
  qed
qed

lemma message_delivered_cases:
  "message_delivered d cu now sid messageId = d \<or>
   (\<exists>uid mid. session_user cu sid = Some uid \<and> messageId = Some mid \<and> mid \<noteq> [] \<and>
      setStatus d now mid uid Delivered = Inr (message_delivered d cu now sid messageId))"
  by (auto simp: message_delivered_def split: option.splits sum.splits)

lemma mark_read_cases:
  "mark_read d cu now sid roomId = d \<or>
   (\<exists>uid rid. markRoomAs d now rid uid Read = Inr (mark_read d cu now sid roomId))"
  by (auto simp: mark_read_def split: option.splits sum.splits)

lemma status_of_message_delivered:
  "status_of (message_delivered d cu now sid messageId) m u = status_of d m u \<or>
   status_of (message_delivered d cu now sid messageId) m u = Some Delivered"
  using message_delivered_cases [of d cu now sid messageId]
  by (auto simp: status_of_setStatus)

lemma status_of_mark_read:
  "status_of (mark_read d cu now sid roomId) m u = status_of d m u \<or>
   status_of (mark_read d cu now sid roomId) m u = Some Read"
  using mark_read_cases [of d cu now sid roomId] status_of_markRoomAs
  by metis

lemma level_step_floor:
  "min (status_level (status_of d m u)) 1 \<le> status_level (status_of (receipt_step cu d ev) m u)"
proof (cases ev)
  case (Pair now e)
  show ?thesis
  proof (cases e)
    case (MessageDelivered sid messageId)
    with Pair status_of_message_delivered [of d cu now sid messageId m u] show ?thesis
      by auto
  next
    case (MarkRead sid roomId)
    with Pair status_of_mark_read [of d cu now sid roomId m u] show ?thesis
      by auto
  qed
qed

lemma level_run_floor:
  "min (status_level (status_of d m u)) 1 \<le> status_level (status_of (run_receipts cu d evs) m u)"
proof (induction evs arbitrary: d)
  case Nil
  then show ?case by (simp add: run_receipts_def)
next
  case (Cons ev evs)
  have "min (status_level (status_of d m u)) 1
          \<le> min (status_level (status_of (receipt_step cu d ev) m u)) 1"
    using level_step_floor [of d m u cu ev] by simp
  also have "\<dots> \<le> status_level (status_of (run_receipts cu (receipt_step cu d ev) evs) m u)"
    by (rule Cons.IH)
  finally show ?case by (simp add: run_receipts_def)
qed

lemma level_mark_read_mono:
  "status_level (status_of d m u) \<le> status_level (status_of (mark_read d cu now sid roomId) m u)"
  using status_of_mark_read [of d cu now sid roomId m u]
  by (cases "status_of d m u"; cases "the (status_of d m u)") auto

lemma level_run_mark_read_mono:
  "\<forall>ev \<in> set evs. is_mark_read ev \<Longrightarrow>
     status_level (status_of d m u) \<le> status_level (status_of (run_receipts cu d evs) m u)"
proof (induction evs arbitrary: d)
  case Nil
  then show ?case by (simp add: run_receipts_def)
next
  case (Cons ev evs)
  from Cons.prems obtain now sid roomId where ev: "ev = (now, MarkRead sid roomId)"
    by (cases ev; cases "snd ev") auto
  have "status_level (status_of d m u) \<le> status_level (status_of (receipt_step cu d ev) m u)"
    by (simp add: ev level_mark_read_mono)
  also have "\<dots> \<le> status_level (status_of (run_receipts cu (receipt_step cu d ev) evs) m u)"
    using Cons.prems by (intro Cons.IH) simp
  finally show ?case by (simp add: run_receipts_def)
qed

lemma delivered_overwrites:
  assumes "session_user cu sid = Some uid" and "mid \<noteq> []" and "status_of d mid uid \<noteq> None"
  shows "status_of (message_delivered d cu now sid (Some mid)) mid uid = Some Delivered"
proof -
  from assms(3) have h: "has_status_row d mid uid" by (simp add: has_status_row_status_of)
  then obtain d' where d': "setStatus d now mid uid Delivered = Inr d'"
    by (simp add: setStatus_def)
  then have "message_delivered d cu now sid (Some mid) = d'"
    using assms by (simp add: message_delivered_def)
  with status_of_setStatus [OF d'] show ?thesis by simp
qed



lemma sql_min_rank:
  "sts \<noteq> [] \<Longrightarrow> sql_min (map sql_status_rank sts) = Some (status_ord (Min (set sts)))"
proof (induction sts)
  case Nil
  then show ?case by simp
next
  case (Cons s sts)
  show ?case
  proof (cases "sts = []")
    case True
    then show ?thesis by (cases s) simp_all
  next
    case False
    have r: "sql_status_rank s = status_ord s" by (cases s) simp_all
    have m: "status_ord (min s (Min (set sts))) = min (status_ord s) (status_ord (Min (set sts)))"
      by (simp add: min_def less_eq_msg_status_def)
    from False Cons.IH show ?thesis
      by (simp add: r m)
  qed
qed

lemma subquery_spec:
  "delivery_status_subquery d mid = spec_delivery_status (map ms_status (status_rows_of d mid))"
proof (cases "status_rows_of d mid = []")
  case True
  then show ?thesis by (simp add: delivery_status_subquery_def spec_delivery_status_def)
next
  case False
  then have ne: "map ms_status (status_rows_of d mid) \<noteq> []" by simp
  have "sql_min (map (\<lambda>ms. sql_status_rank (ms_status ms)) (status_rows_of d mid))
        = Some (status_ord (Min (set (map ms_status (status_rows_of d mid)))))"
    using sql_min_rank [OF ne] by (simp add: comp_def)
  with False show ?thesis
    by (cases "Min (set (map ms_status (status_rows_of d mid)))")
       (simp_all add: delivery_status_subquery_def spec_delivery_status_def Let_def)
qed

text \<open>
  Claim C6. Every row of the message history (\<open>get_messages\<close>) carries as
  \<open>delivery_status\<close> the value \<open>sent\<close> when the message has no status row, and
  otherwise the minimum of the statuses of its rows under \<open>sent < delivered < read\<close>.
\<close>

theorem get_messages_delivery_status:
  "h \<in> set (get_messages d roomId bef limit) \<Longrightarrow>
     h_delivery_status h =
       spec_delivery_status (map ms_status (status_rows_of d (m_id (h_message h))))"
proof -
  assume "h \<in> set (get_messages d roomId bef limit)"
  then have "h \<in> set (map (history_of d) (rev (sort_key m_created_at
      (filter (\<lambda>m. m_room_id m = roomId \<and>
                   (case bef of None \<Rightarrow> True | Some b \<Rightarrow> m_created_at m < b)) (messages d)))))"
    by (auto simp: get_messages_def listByRoom_def Let_def dest: in_set_takeD)
  then obtain m where m: "m \<in> set (messages d)" "h = history_of d m"
    by auto
  then show ?thesis
    by (simp add: history_of_def Let_def subquery_spec)
qed

theorem get_messages_delivery_status_witness:
  "history_of chat_db (example_message ''m1'' ''r1'' ''u-alice'' 5)
      \<in> set (get_messages chat_db ''r1'' None None) \<and>
   h_delivery_status (history_of chat_db (example_message ''m1'' ''r1'' ''u-alice'' 5)) =
     spec_delivery_status [Read, Delivered] \<and>
   spec_delivery_status [Read, Delivered] = Delivered"
proof -
  let ?h = "history_of chat_db (example_message ''m1'' ''r1'' ''u-alice'' 5)"
  have h: "?h \<in> set (get_messages chat_db ''r1'' None None)"
    by code_simp
  have rows: "map ms_status (status_rows_of chat_db (m_id (h_message ?h))) = [Read, Delivered]"
    by code_simp
  have mn: "spec_delivery_status [Read, Delivered] = Delivered"
    by code_simp
  show ?thesis
    using h get_messages_delivery_status [OF h] rows mn by simp
qed

text \<open>
  Claim C1, as stated, fails: Bob's \<open>mark_read\<close> of room \<open>r1\<close> sets his status for
  \<open>m2\<close> to \<open>read\<close>; his delivered receipt for \<open>m2\<close>, handled next, replaces it by
  \<open>delivered\<close>, an earlier status.
\<close>

theorem delivered_after_read_counterexample:
  "status_of (run_receipts chat_sessions chat_db [(10, MarkRead ''s-bob'' (Some ''r1''))])
     ''m2'' ''u-bob'' = Some Read \<and>
   status_of (run_receipts chat_sessions chat_db
       [(10, MarkRead ''s-bob'' (Some ''r1'')), (11, MessageDelivered ''s-bob'' (Some ''m2''))])
     ''m2'' ''u-bob'' = Some Delivered \<and>
   Delivered < Read"
  by code_simp

text \<open>
  Claim C1, amended. For every message and recipient: no sequence of \<open>message_delivered\<close>
  and \<open>mark_read\<close> updates takes a status that is \<open>delivered\<close> or \<open>read\<close> back to
  \<open>sent\<close>; no sequence of \<open>mark_read\<close> updates replaces a status by an earlier one; and
  a delivered receipt of the recipient overwrites the stored status, whatever it was, with
  \<open>delivered\<close>.
\<close>

theorem receipt_status_progress:
  "min (status_level (status_of d m u)) 1 \<le> status_level (status_of (run_receipts cu d evs) m u) \<and>
   ((\<forall>ev \<in> set evs. is_mark_read ev) \<longrightarrow>
      status_level (status_of d m u) \<le> status_level (status_of (run_receipts cu d evs) m u)) \<and>
   (session_user cu sid = Some u \<and> m \<noteq> [] \<and> status_of d m u \<noteq> None \<longrightarrow>
      status_of (message_delivered d cu now sid (Some m)) m u = Some Delivered)"
  using level_run_floor [of d m u cu evs] level_run_mark_read_mono [of evs d m u cu]
    delivered_overwrites [of cu sid u m d now]
  by blast

theorem receipt_status_progress_witness:
  "is_mark_read (11, MarkRead ''s-bob'' (Some ''r1'')) \<and>
   is_mark_read (12, MarkRead ''s-bob'' (Some ''r1'')) \<and>
   status_level (status_of chat_db ''m2'' ''u-bob'')
     \<le> status_level (status_of (run_receipts chat_sessions chat_db
          [(11, MarkRead ''s-bob'' (Some ''r1'')), (12, MarkRead ''s-bob'' (Some ''r1''))]) ''m2'' ''u-bob'') \<and>
   session_user chat_sessions ''s-bob'' = Some ''u-bob'' \<and> ''m1'' \<noteq> [] \<and>
   status_of chat_db ''m1'' ''u-bob'' \<noteq> None \<and>
   status_of (message_delivered chat_db chat_sessions 13 ''s-bob'' (Some ''m1'')) ''m1'' ''u-bob''
     = Some Delivered"
proof -
  let ?evs = "[(11, MarkRead ''s-bob'' (Some ''r1'')), (12::nat, MarkRead ''s-bob'' (Some ''r1''))]"
  have h1: "\<forall>ev \<in> set ?evs. is_mark_read ev" by simp
  have h2: "session_user chat_sessions ''s-bob'' = Some ''u-bob''" by code_simp
  have h3: "status_of chat_db ''m1'' ''u-bob'' \<noteq> None" by code_simp
  show ?thesis
    using h1 h2 h3
      receipt_status_progress [of chat_db "''m2''" "''u-bob''" chat_sessions ?evs "''s-bob''" 13]
      receipt_status_progress [of chat_db "''m1''" "''u-bob''" chat_sessions ?evs "''s-bob''" 13]
    by simp
qed

subsection \<open>Call lifecycle\<close>

lemma find_call_updateStatus:
  "find_call (calls_updateStatus d now callId st) cid =
     map_option (\<lambda>c. if c_id c = callId
                            then (if st \<in> set [Completed, Missed, Rejected]
                                  then c\<lparr>c_status := st, c_ended_at := Some now\<rparr>
                                  else c\<lparr>c_status := st\<rparr>)
                            else c) (find_call d cid)"
proof -
  let ?f = "\<lambda>c. if c_id c = callId
                            then (if st \<in> set [Completed, Missed, Rejected]
                                  then c\<lparr>c_status := st, c_ended_at := Some now\<rparr>
                                  else c\<lparr>c_status := st\<rparr>)
                            else c"
  have "find (\<lambda>c. c_id c = cid) (map ?f (calls d)) = map_option ?f (find (\<lambda>c. c_id c = cid) (calls d))"
    using find_map_keep [where P = "\<lambda>c. c_id c = cid" and f = ?f and xs = "calls d"] by simp
  then show ?thesis
    by (simp add: find_call_def calls_updateStatus_def)
qed

lemma map_get_map_delete: "map_get (map_delete kvs k) k = None"
  by (induction kvs) (auto simp: map_delete_def)

lemma find_call_id: "find_call d callId = Some c \<Longrightarrow> c_id c = callId"
  by (auto simp: find_call_def dest: find_Some_iff [THEN iffD1])

text \<open>
  Claim C5, as stated, fails: the call \<open>c1\<close> is ringing and nobody but the initiator
  has even joined; \<open>end_call\<close> leaves it \<open>completed\<close>, not \<open>missed\<close>.
\<close>

theorem end_call_unanswered_counterexample:
  "(case find_call (fst ringing_state) ''c1'' of
      None \<Rightarrow> False
    | Some c \<Rightarrow> c_status c = Ringing \<and> \<not> answered_by_other (fst ringing_state) c) \<and>
   map_option c_status
     (find_call (fst (end_call (fst ringing_state) (snd ringing_state) 30 (Some ''r1''))) ''c1'')
     = Some Completed \<and>
   Completed \<noteq> Missed"
  by code_simp

text \<open>
  Claim C5, amended. For every call that \<open>activeCalls\<close> holds for the room, whatever its
  status (ringing and unanswered, or ongoing), handling \<open>end_call\<close> sets the status to
  \<open>completed\<close>, sets \<open>ended_at\<close>, changes nothing else of the row, and drops the room
  from \<open>activeCalls\<close>.
\<close>

theorem end_call_completes:
  assumes "rid \<noteq> []" and "map_get ac rid = Some callId" and "callId \<noteq> []"
    and "find_call d callId = Some c"
  shows "find_call (fst (end_call d ac now (Some rid))) callId
           = Some (c\<lparr>c_status := Completed, c_ended_at := Some now\<rparr>) \<and>
         map_get (snd (end_call d ac now (Some rid))) rid = None"
proof -
  have e: "end_call d ac now (Some rid) = (calls_end d now callId, map_delete ac rid)"
    using assms by (simp add: end_call_def)
  have "find_call (calls_end d now callId) callId
          = Some (c\<lparr>c_status := Completed, c_ended_at := Some now\<rparr>)"
    using assms(4) find_call_id [OF assms(4)]
    by (simp add: calls_end_def find_call_updateStatus)
  then show ?thesis
    by (simp add: e map_get_map_delete)
qed

theorem end_call_completes_witness:
  "''r1'' \<noteq> [] \<and> map_get (snd ringing_state) ''r1'' = Some ''c1'' \<and> ''c1'' \<noteq> [] \<and>
   find_call (fst ringing_state) ''c1'' =
     Some \<lparr>c_id = ''c1'', c_room_id = ''r1'', c_initiator_id = Some ''u-alice'', c_started_at = 20,
           c_ended_at = None, c_call_type = AudioCall, c_status = Ringing\<rparr> \<and>
   find_call (fst (end_call (fst ringing_state) (snd ringing_state) 30 (Some ''r1''))) ''c1'' =
     Some \<lparr>c_id = ''c1'', c_room_id = ''r1'', c_initiator_id = Some ''u-alice'', c_started_at = 20,
           c_ended_at = Some 30, c_call_type = AudioCall, c_status = Completed\<rparr> \<and>
   map_get (snd (end_call (fst ringing_state) (snd ringing_state) 30 (Some ''r1''))) ''r1'' = None"
proof -
  have h1: "''r1'' \<noteq> []" by simp
  have h2: "map_get (snd ringing_state) ''r1'' = Some ''c1''" by code_simp
  have h3: "''c1'' \<noteq> []" by simp
  have h4: "find_call (fst ringing_state) ''c1'' =
     Some \<lparr>c_id = ''c1'', c_room_id = ''r1'', c_initiator_id = Some ''u-alice'', c_started_at = 20,
           c_ended_at = None, c_call_type = AudioCall, c_status = Ringing\<rparr>" by code_simp
  show ?thesis
    using h2 h4 end_call_completes [OF h1 h2 h3 h4, of 30] by simp
qed

subsection \<open>Echo prevention\<close>

lemma map_get_map_set: "map_get (map_set kvs k v) k' = (if k' = k then Some v else map_get kvs k')"
  by (induction kvs) auto

lemma map_get_map_delete_other:
  "map_get (map_delete kvs k) k' = (if k' = k then None else map_get kvs k')"
  by (induction kvs) (auto simp: map_delete_def)

lemma map_get_in_set: "map_get kvs k = Some v \<Longrightarrow> (k, v) \<in> set kvs"
  by (induction kvs) (auto split: if_splits)

lemma map_get_None_iff: "(map_get kvs k = None) = (k \<notin> fst ` set kvs)"
  by (induction kvs) (auto split: if_splits)

lemma find_producer_Some:
  "find_producer peers producerId = Some (ownerId, pr) \<Longrightarrow>
     \<exists>q. (ownerId, q) \<in> set peers \<and> map_get (producers q) producerId = Some pr"
  by (induction peers) (auto split: option.splits)

lemma find_producer_None:
  "find_producer peers producerId = None \<Longrightarrow> (ownerId, q) \<in> set peers \<Longrightarrow>
     map_get (producers q) producerId = None"
  by (induction peers) (auto split: option.splits)

text \<open>
  Claim C3. When the producer is owned by the requesting peer itself, \<open>consume\<close> fails
  with the error \<open>Cannot consume own producer\<close> and the media server is as before: no
  consumer is created and the peer's \<open>consumers\<close> map is unchanged, whatever the router
  and the transport would have answered.
\<close>

theorem consume_own_producer_fails:
  assumes "owns_producer ms roomId peerId producerId"
  shows "consume canConsume created ms roomId peerId producerId
           = (ms, Inl (Error ''Cannot consume own producer''))"
proof -
  from assms obtain room p where room: "map_get (media_rooms ms) roomId = Some room"
    and p: "map_get (mr_peers room) peerId = Some p"
    and has: "map_has (producers p) producerId"
    and others: "list_all (\<lambda>(ownerId, q). ownerId = peerId \<or> \<not> map_has (producers q) producerId)
                   (mr_peers room)"
    by (auto simp: owns_producer_def split: option.splits)
  have "find_producer (mr_peers room) producerId \<noteq> None"
  proof
    assume "find_producer (mr_peers room) producerId = None"
    from find_producer_None [OF this map_get_in_set [OF p]] has show False
      by (simp add: map_has_def)
  qed
  then obtain ownerId pr where f: "find_producer (mr_peers room) producerId = Some (ownerId, pr)"
    by (cases "find_producer (mr_peers room) producerId") auto
  from find_producer_Some [OF f] others have "ownerId = peerId"
    by (auto simp: list_all_iff map_has_def)
  with room p f show ?thesis
    by (simp add: consume_def)
qed

theorem consume_own_producer_fails_witness:
  "owns_producer media_recording ''r1'' ''s-alice'' ''p-alice'' \<and>
   consume True (Inr ''c1'') media_recording ''r1'' ''s-alice'' ''p-alice''
     = (media_recording, Inl (Error ''Cannot consume own producer''))"
proof -
  have h: "owns_producer media_recording ''r1'' ''s-alice'' ''p-alice''"
    by code_simp
  show ?thesis
    using h consume_own_producer_fails [OF h] by simp
qed

subsection \<open>Recording id and output file\<close>

lemma video_among_iff:
  "video_among prods = (\<exists>x \<in> set prods. prod_kind (snd x) = Video)"
  by (induction prods) auto

lemma video_in_peers_iff:
  "video_in_peers peers =
     (\<exists>x \<in> set peers. \<exists>y \<in> set (producers (snd x)). prod_kind (snd y) = Video)"
  by (induction peers) (force simp: video_among_iff)+

lemma video_in_peers_owns_video: "video_in_peers (mr_peers room) = owns_video room"
  by (simp add: video_in_peers_iff owns_video_def case_prod_unfold)

lemma createRecordingInput_keeps:
  "rec_id (createRecordingInput env i r pr peerId) = rec_id r"
  "rec_startTime (createRecordingInput env i r pr peerId) = rec_startTime r"
  "rec_outputFile (createRecordingInput env i r pr peerId) = rec_outputFile r"
  "rec_hasVideo (createRecordingInput env i r pr peerId) = rec_hasVideo r"
  by (simp_all add: createRecordingInput_def Let_def split: option.splits prod.splits)

lemma fold_inputs_keeps:
  "rec_id (fold (\<lambda>(i, (peerId, pr)) r. createRecordingInput env i r pr peerId) ips r) = rec_id r"
  "rec_startTime (fold (\<lambda>(i, (peerId, pr)) r. createRecordingInput env i r pr peerId) ips r) = rec_startTime r"
  "rec_outputFile (fold (\<lambda>(i, (peerId, pr)) r. createRecordingInput env i r pr peerId) ips r) = rec_outputFile r"
  "rec_hasVideo (fold (\<lambda>(i, (peerId, pr)) r. createRecordingInput env i r pr peerId) ips r) = rec_hasVideo r"
  by (induction ips arbitrary: r; simp add: createRecordingInput_keeps split: prod.splits)+

lemma startCombinedRecording_keeps:
  "rec_id (fst (startCombinedRecording env r)) = rec_id r"
  "rec_startTime (fst (startCombinedRecording env r)) = rec_startTime r"
  "rec_outputFile (fst (startCombinedRecording env r)) = rec_outputFile r"
  "rec_hasVideo (fst (startCombinedRecording env r)) = rec_hasVideo r"
  "rec_audioInputs (fst (startCombinedRecording env r)) = rec_audioInputs r"
  "rec_videoInputs (fst (startCombinedRecording env r)) = rec_videoInputs r"
  by (simp_all add: startCombinedRecording_def Let_def split: option.splits prod.splits)

text \<open>The recording that a start leaves on the room.\<close>

lemma startRecording_recording:
  assumes "map_get (media_rooms ms) roomId = Some room" and "mr_recording room = None"
  shows "recording_of (fst (startRecording env ms roomId)) roomId =
     Some (fst (startCombinedRecording env
        (fold (\<lambda>(i, (peerId, pr)) r. createRecordingInput env i r pr peerId)
           (enumerate 0 (room_producers room))
           \<lparr>rec_id = roomId @ ''_'' @ string_of_nat (env_now env), rec_startTime = env_now env,
             rec_outputFile = env_path_join env (env_recordings_dir env)
                (roomId @ ''_'' @ string_of_nat (env_now env) @ ''.'' @
                   (if video_in_peers (mr_peers room) then ''mp4'' else ''mp3'')),
             rec_hasVideo = video_in_peers (mr_peers room), rec_ffmpegProcess = None,
             rec_transports = [], rec_consumers = [], rec_audioInputs = [],
             rec_videoInputs = []\<rparr>)))"
  using assms
  by (simp add: startRecording_def Let_def recording_of_def set_room_def map_get_map_set
           split: prod.splits option.splits)

text \<open>
  Claim C9. A recording started in room \<open>R\<close> at time \<open>T\<close> (epoch milliseconds) has the
  id \<open>R_T\<close>, and its output file is the recordings directory joined with the id and
  \<open>.mp4\<close> when some peer of the room owns a video producer at that moment, with the id
  and \<open>.mp3\<close> when none does.
\<close>

theorem startRecording_id_and_file:
  assumes "map_get (media_rooms ms) roomId = Some room" and "mr_recording room = None"
  shows "\<exists>r. recording_of (fst (startRecording env ms roomId)) roomId = Some r \<and>
           rec_id r = roomId @ ''_'' @ string_of_nat (env_now env) \<and>
           rec_startTime r = env_now env \<and>
           rec_outputFile r = env_path_join env (env_recordings_dir env)
              (rec_id r @ (if owns_video room then ''.mp4'' else ''.mp3''))"
  unfolding startRecording_recording [OF assms] video_in_peers_owns_video
  by (simp add: startCombinedRecording_keeps fold_inputs_keeps)

theorem startRecording_id_and_file_witness:
  "map_get (media_rooms media_idle) ''r1'' = Some audio_room \<and> mr_recording audio_room = None \<and>
   map_get (media_rooms media_idle) ''r2'' = Some video_room \<and> mr_recording video_room = None \<and>
   (\<exists>r. recording_of (fst (startRecording example_env media_idle ''r1'')) ''r1'' = Some r \<and>
         rec_id r = ''r1_1700000000000'' \<and>
         rec_outputFile r = ''/srv/recordings/r1_1700000000000.mp3'') \<and>
   (\<exists>r. recording_of (fst (startRecording example_env media_idle ''r2'')) ''r2'' = Some r \<and>
         rec_id r = ''r2_1700000000000'' \<and>
         rec_outputFile r = ''/srv/recordings/r2_1700000000000.mp4'')"
proof -
  have a1: "map_get (media_rooms media_idle) ''r1'' = Some audio_room" by (simp add: media_idle_def)
  have a2: "mr_recording audio_room = None" by (simp add: audio_room_def)
  have v1: "map_get (media_rooms media_idle) ''r2'' = Some video_room" by (simp add: media_idle_def)
  have v2: "mr_recording video_room = None" by (simp add: video_room_def)
  have t: "string_of_nat (env_now example_env) = ''1700000000000''" by code_simp
  have j: "env_path_join example_env (env_recordings_dir example_env) = (\<lambda>f. ''/srv/recordings/'' @ f)"
    by (simp add: example_env_def)
  have na: "\<not> owns_video audio_room" by code_simp
  have nv: "owns_video video_room" by code_simp
  from startRecording_id_and_file [OF a1 a2, of example_env] obtain ra where
    ra: "recording_of (fst (startRecording example_env media_idle ''r1'')) ''r1'' = Some ra"
      "rec_id ra = ''r1'' @ ''_'' @ string_of_nat (env_now example_env)"
      "rec_outputFile ra = env_path_join example_env (env_recordings_dir example_env)
              (rec_id ra @ (if owns_video audio_room then ''.mp4'' else ''.mp3''))"
    by blast
  from startRecording_id_and_file [OF v1 v2, of example_env] obtain rv where
    rv: "recording_of (fst (startRecording example_env media_idle ''r2'')) ''r2'' = Some rv"
      "rec_id rv = ''r2'' @ ''_'' @ string_of_nat (env_now example_env)"
      "rec_outputFile rv = env_path_join example_env (env_recordings_dir example_env)
              (rec_id rv @ (if owns_video video_room then ''.mp4'' else ''.mp3''))"
    by blast
  have "rec_id ra = ''r1_1700000000000'' \<and> rec_outputFile ra = ''/srv/recordings/r1_1700000000000.mp3''"
    using ra(2,3) by (simp add: t j na)
  moreover have "rec_id rv = ''r2_1700000000000'' \<and> rec_outputFile rv = ''/srv/recordings/r2_1700000000000.mp4''"
    using rv(2,3) by (simp add: t j nv)
  ultimately show ?thesis
    using a1 a2 v1 v2 ra(1) rv(1) by blast
qed

subsection \<open>Presence\<close>

lemma find_user_setOnlineStatus:
  "find_user (setOnlineStatus d now uid b) x =
     map_option (\<lambda>u. if u_id u = uid
                            then u\<lparr>u_is_online := b,
                                   u_last_seen := (if \<not> b then Some now else u_last_seen u)\<rparr>
                            else u) (find_user d x)"
proof -
  let ?f = "\<lambda>u. if u_id u = uid
                            then u\<lparr>u_is_online := b,
                                   u_last_seen := (if \<not> b then Some now else u_last_seen u)\<rparr>
                            else u"
  have "find (\<lambda>u. u_id u = x) (map ?f (users d)) = map_option ?f (find (\<lambda>u. u_id u = x) (users d))"
    using find_map_keep [where P = "\<lambda>u. u_id u = x" and f = ?f and xs = "users d"] by simp
  then show ?thesis
    by (simp add: find_user_def setOnlineStatus_def)
qed

lemma user_exists_find_user: "user_exists d uid = (\<exists>u. find_user d uid = Some u \<and> u_id u = uid)"
proof
  assume "user_exists d uid"
  then have "find (\<lambda>u. u_id u = uid) (users d) \<noteq> None"
    by (auto simp: user_exists_def find_None_iff)
  then obtain u where u: "find (\<lambda>u. u_id u = uid) (users d) = Some u" by auto
  then have "u_id u = uid" by (auto dest: find_Some_iff [THEN iffD1])
  with u show "\<exists>u. find_user d uid = Some u \<and> u_id u = uid" by (simp add: find_user_def)
next
  assume "\<exists>u. find_user d uid = Some u \<and> u_id u = uid"
  then show "user_exists d uid"
    by (auto simp: find_user_def user_exists_def find_Some_iff)
qed

lemma is_online_setOnlineStatus:
  assumes "user_exists d uid"
  shows "is_online (setOnlineStatus d now uid b) uid = Some b"
proof -
  from assms obtain u where u: "find_user d uid = Some u" "u_id u = uid"
    by (auto simp: user_exists_find_user)
  then show ?thesis
    by (simp add: is_online_def find_user_setOnlineStatus)
qed

lemma sessions_of_map_delete:
  "sessions_of (map_delete cu sid) uid = filter (\<lambda>s. s \<noteq> sid) (sessions_of cu uid)"
  by (induction cu) (auto simp: sessions_of_def map_delete_def)

text \<open>
  Claim C2, as stated, fails: Bob is registered on two sockets and online; when the
  one on his phone disconnects, the one on his laptop stays registered for him, and his
  \<open>is_online\<close> flag is false.
\<close>

theorem disconnect_one_of_two_counterexample:
  "sessions_of (connectedUsers hub_two_sessions) ''u-bob'' = [''s-bob-phone'', ''s-bob-laptop''] \<and>
   is_online (hub_db hub_two_sessions) ''u-bob'' = Some True \<and>
   sessions_of (connectedUsers (disconnect hub_two_sessions False 40 ''s-bob-phone'')) ''u-bob''
     = [''s-bob-laptop''] \<and>
   is_online (hub_db (disconnect hub_two_sessions False 40 ''s-bob-phone'')) ''u-bob'' = Some False"
  by code_simp

text \<open>
  Claim C2, amended. Registering a session with a user id sets that user's \<open>is_online\<close>
  flag to true. Disconnecting a registered session of a user sets the flag to false and
  removes that session only: the user's other sessions stay registered, so the flag is
  false after the user's last session disconnects, and also while other sessions remain.
\<close>

theorem presence_follows_last_event:
  "(uid \<noteq> [] \<and> user_exists (hub_db h) uid \<longrightarrow>
      is_online (hub_db (register_user h now sid (Some uid) username)) uid = Some True \<and>
      session_user (connectedUsers (register_user h now sid (Some uid) username)) sid = Some uid) \<and>
   (session_user (connectedUsers h) sid = Some uid \<and> user_exists (hub_db h) uid \<longrightarrow>
      is_online (hub_db (disconnect h quitThrows now sid)) uid = Some False \<and>
      sessions_of (connectedUsers (disconnect h quitThrows now sid)) uid
        = filter (\<lambda>s. s \<noteq> sid) (sessions_of (connectedUsers h) uid))"
  by (auto simp: register_user_def disconnect_def Let_def is_online_setOnlineStatus
                 sessions_of_map_delete session_user_def map_get_map_set)

theorem presence_follows_last_event_witness:
  "''u-bob'' \<noteq> [] \<and> user_exists (hub_db hub0) ''u-bob'' \<and>
   is_online (hub_db (register_user hub0 30 ''s-bob-phone'' (Some ''u-bob'') (Some ''bob''))) ''u-bob''
     = Some True \<and>
   session_user (connectedUsers hub_two_sessions) ''s-bob-phone'' = Some ''u-bob'' \<and>
   user_exists (hub_db hub_two_sessions) ''u-bob'' \<and>
   is_online (hub_db (disconnect hub_two_sessions False 40 ''s-bob-phone'')) ''u-bob'' = Some False \<and>
   sessions_of (connectedUsers (disconnect hub_two_sessions False 40 ''s-bob-phone'')) ''u-bob''
     = filter (\<lambda>s. s \<noteq> ''s-bob-phone'') (sessions_of (connectedUsers hub_two_sessions) ''u-bob'')"
proof -
  have h1: "user_exists (hub_db hub0) ''u-bob''" by code_simp
  have h2: "session_user (connectedUsers hub_two_sessions) ''s-bob-phone'' = Some ''u-bob''"
    by code_simp
  have h3: "user_exists (hub_db hub_two_sessions) ''u-bob''" by code_simp
  show ?thesis
    using h1 h2 h3
      presence_follows_last_event [of "''u-bob''" hub0 30 "''s-bob-phone''" "Some ''bob''" False]
      presence_follows_last_event [of "''u-bob''" hub_two_sessions 40 "''s-bob-phone''" "Some ''bob''" False]
    by simp
qed

subsection \<open>REST responses\<close>

lemma sanitize_object:
  "sanitize (Some ob) = Some (map_delete ob ''password'') \<and>
   map_get (map_delete ob ''password'') ''password'' = None \<and>
   (\<forall>k. k \<noteq> ''password'' \<longrightarrow> map_get (map_delete ob ''password'') k = map_get ob k)"
  by (simp add: sanitize_def map_get_map_delete_other)

lemma sanitized_row: "row_without_password u (sanitize (Some (user_object u)))"
  by (simp add: row_without_password_def sanitize_def map_get_map_delete_other)

lemma find_in_set: "find P xs = Some x \<Longrightarrow> x \<in> set xs"
  by (auto simp: find_Some_iff)

lemma paginate_subset: "paginate limit offset rows = Inr us \<Longrightarrow> set us \<subseteq> set rows"
  by (auto simp: paginate_def split: if_splits dest: in_set_takeD in_set_dropD)

lemma sanitized_fromI:
  "u \<in> set (users d) \<or> u \<in> set (users d') \<Longrightarrow> sanitized_from d d' (sanitize (Some (user_object u)))"
  unfolding sanitized_from_def using sanitized_row by blast

lemma register_users:
  assumes "obj \<in> set (body_users (res_body (snd (register tok d now newId b))))"
  shows "sanitized_from d (fst (register tok d now newId b)) obj"
  using assms
  by (auto simp: register_def respond_def internal_error_def users_create_def Let_def
           intro!: sanitized_fromI split: option.splits if_splits sum.splits prod.splits)

lemma login_users:
  assumes "obj \<in> set (body_users (res_body (snd (login tok d now b))))"
  shows "sanitized_from d (fst (login tok d now b)) obj"
  using assms
  by (auto simp: login_def respond_def findByUsername_def
           intro!: sanitized_fromI dest: find_in_set split: option.splits if_splits)

lemma admin_only_users:
  assumes "obj \<in> set (body_users (res_body (snd (admin_only tok d header handler))))"
  shows "obj \<in> set (body_users (res_body (snd handler))) \<and>
         fst (admin_only tok d header handler) = fst handler"
  using assms
  by (auto simp: admin_only_def authMiddleware_def adminMiddleware_def respond_def
           split: option.splits if_splits sum.splits)

lemma users_response_users:
  assumes "obj \<in> set (body_users (res_body (users_response rows)))" and "rows = Inr us"
  shows "\<exists>u \<in> set us. obj = sanitize (Some (user_object u))"
  using assms by (auto simp: users_response_def respond_def)

lemma users_response_error: "body_users (res_body (users_response (Inl err))) = []"
  by (simp add: users_response_def internal_error_def respond_def)

lemma list_users:
  assumes "obj \<in> set (body_users (res_body (users_response (paginate limit offset rows))))"
    and "set rows \<subseteq> set (users d)"
  shows "sanitized_from d d obj"
proof (cases "paginate limit offset rows")
  case (Inl err)
  with assms(1) show ?thesis by (simp add: users_response_error)
next
  case (Inr us)
  from users_response_users [OF assms(1) Inr] obtain u where
    "u \<in> set us" "obj = sanitize (Some (user_object u))" by blast
  with paginate_subset [OF Inr] assms(2) show ?thesis
    by (auto intro!: sanitized_fromI)
qed

lemma set_status_users:
  assumes "obj \<in> set (body_users (res_body (snd (set_status_response d uid st))))"
  shows "sanitized_from d (fst (set_status_response d uid st)) obj"
  using assms
  by (auto simp: set_status_response_def users_setStatus_def Let_def respond_def find_user_def
           intro!: sanitized_fromI dest!: find_in_set split: option.splits prod.splits)

lemma rest_route_users:
  assumes "obj \<in> set (body_users (res_body (snd (rest_route tok d now newId req))))"
  shows "sanitized_from d (fst (rest_route tok d now newId req)) obj"
proof (cases req)
  case (PostRegister b)
  with assms show ?thesis by (simp add: register_users)
next
  case (PostLogin b)
  with assms show ?thesis by (simp add: login_users)
next
  case (GetAdminPending header limit offset)
  with assms admin_only_users
  have m: "obj \<in> set (body_users (res_body (users_response
           (listByStatus d ''pending'' (or_default limit 50) (or_default offset 0)))))"
    and same: "fst (rest_route tok d now newId req) = d"
    by (fastforce simp: admin_list_pending_def)+
  from m have "sanitized_from d d obj"
    unfolding listByStatus_def by (rule list_users) auto
  with same show ?thesis by simp
next
  case (GetAdminUsers header limit offset)
  with assms admin_only_users
  have m: "obj \<in> set (body_users (res_body (users_response
           (listAll d (or_default limit 50) (or_default offset 0)))))"
    and same: "fst (rest_route tok d now newId req) = d"
    by (fastforce simp: admin_list_users_def)+
  from m have "sanitized_from d d obj"
    unfolding listAll_def by (rule list_users) auto
  with same show ?thesis by simp
next
  case (PostApprove header uid)
  with assms admin_only_users [of obj tok d header "set_status_response d uid ''active''"]
  show ?thesis by (simp add: admin_approve_def set_status_users)
next
  case (PostReject header uid)
  with assms admin_only_users [of obj tok d header "set_status_response d uid ''rejected''"]
  show ?thesis by (simp add: admin_reject_def set_status_users)
qed

text \<open>
  Claim C10. \<open>sanitize\<close> removes the \<open>password\<close> property of a user object and leaves
  every other property as it is; and every user object in the body of a response of the
  register, login, admin list, approve and reject routes is a row of the user table
  passed through \<open>sanitize\<close>, so it has no \<open>password\<close> property.
\<close>

theorem rest_users_sanitized:
  "(sanitize (Some ob) = Some (map_delete ob ''password'') \<and>
    map_get (map_delete ob ''password'') ''password'' = None \<and>
    (\<forall>k. k \<noteq> ''password'' \<longrightarrow> map_get (map_delete ob ''password'') k = map_get ob k)) \<and>
   (obj \<in> set (body_users (res_body (snd (rest_route tok d now newId req)))) \<longrightarrow>
      sanitized_from d (fst (rest_route tok d now newId req)) obj)"
  using sanitize_object [of ob] rest_route_users [of obj tok d now newId req]
  by blast

theorem rest_users_sanitized_witness:
  "sanitize (Some (user_object (example_user ''u-alice'' ''alice'' ''pw-a'')))
     \<in> set (body_users (res_body (snd (rest_route example_jwt rest_db 60 ''n1''
          (PostLogin \<lparr>body_username = Some ''alice'', body_email = None,
                      body_password = Some ''pw-a''\<rparr>))))) \<and>
   sanitized_from rest_db
     (fst (rest_route example_jwt rest_db 60 ''n1''
          (PostLogin \<lparr>body_username = Some ''alice'', body_email = None,
                      body_password = Some ''pw-a''\<rparr>)))
     (sanitize (Some (user_object (example_user ''u-alice'' ''alice'' ''pw-a'')))) \<and>
   length (body_users (res_body (snd (rest_route example_jwt rest_db 60 ''n1''
          (GetAdminUsers (Some ''Bearer tok:u-root'') None None))))) = 3 \<and>
   list_all (sanitized_from rest_db rest_db)
     (body_users (res_body (snd (rest_route example_jwt rest_db 60 ''n1''
          (GetAdminUsers (Some ''Bearer tok:u-root'') None None)))))"
proof -
  let ?login = "PostLogin \<lparr>body_username = Some ''alice'', body_email = None,
                      body_password = Some ''pw-a''\<rparr>"
  let ?list = "GetAdminUsers (Some ''Bearer tok:u-root'') None None"
  let ?alice = "sanitize (Some (user_object (example_user ''u-alice'' ''alice'' ''pw-a'')))"
  have h: "?alice \<in> set (body_users (res_body (snd (rest_route example_jwt rest_db 60 ''n1'' ?login))))"
    by code_simp
  have n: "length (body_users (res_body (snd (rest_route example_jwt rest_db 60 ''n1'' ?list)))) = 3"
    by code_simp
  have same: "fst (rest_route example_jwt rest_db 60 ''n1'' ?list) = rest_db"
    by (simp add: admin_list_users_def admin_only_def split: sum.splits)
  have "\<forall>obj \<in> set (body_users (res_body (snd (rest_route example_jwt rest_db 60 ''n1'' ?list)))).
          sanitized_from rest_db rest_db obj"
    using rest_users_sanitized [of _ _ example_jwt rest_db 60 "''n1''" ?list] same
    by auto
  then have l: "list_all (sanitized_from rest_db rest_db)
     (body_users (res_body (snd (rest_route example_jwt rest_db 60 ''n1'' ?list))))"
    by (simp add: list_all_iff)
  show ?thesis
    using h n l rest_users_sanitized [of _ ?alice example_jwt rest_db 60 "''n1''" ?login]
    by blast
qed

subsection \<open>UDP ports of the recording taps\<close>

text \<open>
  The double product differs from the exact one for some draws: for the draw
  \<open>124099189731987 / 2 ^ 52\<close> the exact product with 9000 is just below 248 and the
  double product is 248.
\<close>

lemma double_times_rounds_up:
  "is_unit_double (124099189731987, 52) \<and>
   math_floor (double_times (124099189731987, 52) 9000) = 248 \<and>
   (124099189731987 * 9000) div 2 ^ 52 = (247 :: nat)"
  by code_simp

text \<open>A number below \<open>2 ^ j\<close> has at most \<open>j\<close> bits.\<close>

lemma bit_length_le: "M < 2 ^ j \<Longrightarrow> bit_length M \<le> j"
proof (induction M arbitrary: j rule: bit_length.induct)
  case (1 n)
  show ?case
  proof (cases "n = 0")
    case True
    then show ?thesis by (simp add: bit_length.simps)
  next
    case False
    with 1(2) obtain j' where j: "j = Suc j'" by (cases j) auto
    with 1(2) have "n div 2 < 2 ^ j'" by auto
    from 1(1) [OF False this] show ?thesis
      using False j by (simp add: bit_length.simps [of n])
  qed
qed

lemma round_to_double_le: "round_to_double M \<le> M + 2 ^ (bit_length M - 53) div 2"
proof -
  define k where "k = bit_length M - 53"
  have split: "M = M div 2 ^ k * 2 ^ k + M mod 2 ^ k" by (rule div_mult_mod_eq [symmetric])
  have low: "M div 2 ^ k * 2 ^ k \<le> M" by simp
  show ?thesis
  proof (cases "k = 0")
    case True
    then show ?thesis by (simp add: round_to_double_def k_def [symmetric] Let_def)
  next
    case False
    then have two: "(2::nat) ^ k = 2 * (2 ^ k div 2)" by (cases k) auto
    have up: "2 ^ k div 2 \<le> M mod 2 ^ k \<Longrightarrow> (M div 2 ^ k + 1) * 2 ^ k \<le> M + 2 ^ k div 2"
    proof -
      assume h: "2 ^ k div 2 \<le> M mod 2 ^ k"
      have "(M div 2 ^ k + 1) * 2 ^ k = M div 2 ^ k * 2 ^ k + 2 ^ k" by (simp add: algebra_simps)
      also have "\<dots> \<le> M div 2 ^ k * 2 ^ k + (M mod 2 ^ k + 2 ^ k div 2)" using h two by linarith
      also have "\<dots> = M + 2 ^ k div 2" using split by linarith
      finally show ?thesis .
    qed
    show ?thesis
      using False low up
      by (auto simp: round_to_double_def k_def [symmetric] Let_def intro: trans_le_add1)
  qed
qed

lemma draw_below_9000:
  assumes "is_unit_double d"
  shows "math_floor (double_times d 9000) < 9000"
proof -
  obtain m n where d: "d = (m, n)" by (cases d)
  from assms d have m53: "m < 2 ^ 53" and mn: "m < 2 ^ n" by (simp_all add: is_unit_double_def)
  have "m * 9000 < 2 ^ 53 * 2 ^ 14" using m53 by simp
  then have "m * 9000 < 2 ^ 67" by simp
  then have "bit_length (m * 9000) \<le> 67" by (rule bit_length_le)
  then have "bit_length (m * 9000) - 53 \<le> 14" by simp
  then have "(2::nat) ^ (bit_length (m * 9000) - 53) \<le> 2 ^ 14" by (rule power_increasing) simp
  then have "(2::nat) ^ (bit_length (m * 9000) - 53) div 2 \<le> 8192" by simp
  with round_to_double_le [of "m * 9000"] have "round_to_double (m * 9000) \<le> m * 9000 + 8192"
    by linarith
  moreover from mn have "Suc m \<le> 2 ^ n" by simp
  then have "9000 * Suc m \<le> 9000 * 2 ^ n" by (rule mult_le_mono2)
  ultimately have "round_to_double (m * 9000) < 9000 * 2 ^ n" by simp
  then show ?thesis
    by (simp add: math_floor_def double_times_def d less_mult_imp_div_less)
qed

lemma tap_ports_createRecordingInput:
  "set (tap_ports (createRecordingInput env i r pr peerId))
     \<subseteq> insert (20000 + math_floor (double_times (env_random env i) 9000)) (set (tap_ports r))"
  by (auto simp: createRecordingInput_def tap_ports_def Let_def split: option.splits prod.splits)

lemma tap_ports_fold:
  assumes "\<forall>i. is_unit_double (env_random env i)"
    and "\<forall>port \<in> set (tap_ports r). port_ok env n port"
  shows "\<forall>port \<in> set (tap_ports (fold (\<lambda>(i, (peerId, pr)) r. createRecordingInput env i r pr peerId)
             (enumerate n prods) r)). port_ok env (n + length prods) port"
  using assms(2)
proof (induction prods arbitrary: n r)
  case Nil
  then show ?case by simp
next
  case (Cons a prods)
  obtain peerId pr where a: "a = (peerId, pr)" by (cases a)
  have "math_floor (double_times (env_random env n) 9000) < 9000"
    using assms(1) by (simp add: draw_below_9000)
  then have new: "port_ok env (Suc n) (20000 + math_floor (double_times (env_random env n) 9000))"
    by (auto simp: port_ok_def)
  have old: "\<And>port. port_ok env n port \<Longrightarrow> port_ok env (Suc n) port"
    by (auto simp: port_ok_def intro: less_SucI)
  have "\<forall>port \<in> set (tap_ports (createRecordingInput env n r pr peerId)). port_ok env (Suc n) port"
    using tap_ports_createRecordingInput [of env n r pr peerId] Cons.prems new old
    by blast
  from Cons.IH [OF this] show ?case
    by (simp add: a)
qed

text \<open>
  Claim C8, amended. A recording start gives each RTP tap the port
  \<open>20000 + Math.floor(Math.random() * 9000)\<close>, computed in double precision from one of
  the random draws of that start; whatever doubles below 1 are drawn, every tap port
  lies in \<open>20000..28999\<close>. Nothing makes the ports of two taps differ.
\<close>

theorem tap_ports_in_window:
  assumes "map_get (media_rooms ms) roomId = Some room" and "mr_recording room = None"
    and "\<forall>i. is_unit_double (env_random env i)"
  shows "\<exists>r. recording_of (fst (startRecording env ms roomId)) roomId = Some r \<and>
           (\<forall>port \<in> set (tap_ports r).
              20000 \<le> port \<and> port \<le> 28999 \<and>
              (\<exists>i < length (room_producers room).
                 port = 20000 + math_floor (double_times (env_random env i) 9000)))"
proof -
  let ?r0 = "\<lparr>rec_id = roomId @ ''_'' @ string_of_nat (env_now env), rec_startTime = env_now env,
             rec_outputFile = env_path_join env (env_recordings_dir env)
                (roomId @ ''_'' @ string_of_nat (env_now env) @ ''.'' @
                   (if video_in_peers (mr_peers room) then ''mp4'' else ''mp3'')),
             rec_hasVideo = video_in_peers (mr_peers room), rec_ffmpegProcess = None,
             rec_transports = [], rec_consumers = [], rec_audioInputs = [],
             rec_videoInputs = []\<rparr>"
  have "\<forall>port \<in> set (tap_ports ?r0). port_ok env 0 port"
    by (simp add: tap_ports_def)
  from tap_ports_fold [OF assms(3) this, of "room_producers room"]
  show ?thesis
    unfolding startRecording_recording [OF assms(1,2)]
    by (simp add: tap_ports_def startCombinedRecording_keeps port_ok_def)
qed

text \<open>
  Claim C8, as stated, fails: when \<open>Math.random()\<close> gives one half both times, the
  taps of Alice's and of Bob's producer in one recording both get port 24500.
\<close>

theorem shared_tap_port_counterexample:
  "(case recording_of media_recording ''r1'' of
      None \<Rightarrow> False
    | Some r \<Rightarrow>
        map in_peerId (rec_audioInputs r @ rec_videoInputs r) = [''s-alice'', ''s-bob''] \<and>
        tap_ports r = [24500, 24500] \<and> \<not> distinct (tap_ports r))"
  by code_simp

theorem tap_ports_in_window_witness:
  "map_get (media_rooms media_idle) ''r2'' = Some video_room \<and> mr_recording video_room = None \<and>
   (\<forall>i. is_unit_double (env_random example_env i)) \<and>
   (\<exists>r. recording_of (fst (startRecording example_env media_idle ''r2'')) ''r2'' = Some r \<and>
        list_all (\<lambda>port. 20000 \<le> port \<and> port \<le> 28999) (tap_ports r))"
proof -
  have v1: "map_get (media_rooms media_idle) ''r2'' = Some video_room" by (simp add: media_idle_def)
  have v2: "mr_recording video_room = None" by (simp add: video_room_def)
  have d: "\<forall>i. is_unit_double (env_random example_env i)"
    by (simp add: example_env_def is_unit_double_def)
  from tap_ports_in_window [OF v1 v2 d] obtain r where
    "recording_of (fst (startRecording example_env media_idle ''r2'')) ''r2'' = Some r"
    "\<forall>port \<in> set (tap_ports r). 20000 \<le> port \<and> port \<le> 28999"
    by blast
  then have "\<exists>r. recording_of (fst (startRecording example_env media_idle ''r2'')) ''r2'' = Some r \<and>
        list_all (\<lambda>port. 20000 \<le> port \<and> port \<le> 28999) (tap_ports r)"
    by (auto simp: list_all_iff)
  with v1 v2 d show ?thesis by blast
qed

subsection \<open>Private chats: overlapping requests\<close>

text \<open>
  Claim C7. Alice asks for a private chat with Bob while Bob asks for one with Alice, and
  the two handlers overlap: each \<open>SELECT\<close> of \<open>findOrCreatePrivate\<close> is answered before
  either transaction runs. Both calls are acknowledged with \<open>created = true\<close> and with
  different room ids, and the database is left with two private rooms of the same two
  users. (When Bob's call starts only after Alice's is acknowledged, it gets Alice's
  room and \<open>created = false\<close>.)
\<close>

theorem crossing_private_chats_duplicate:
  "map acked_room_id (snd (run_schedule two_users_db crossing_calls [0, 1, 0, 1, 0, 1]))
     = [Some ''n1'', Some ''n2''] \<and>
   map acked_created (snd (run_schedule two_users_db crossing_calls [0, 1, 0, 1, 0, 1]))
     = [Some True, Some True] \<and>
   map r_id (private_rooms_of (fst (run_schedule two_users_db crossing_calls [0, 1, 0, 1, 0, 1]))
               ''u-alice'' ''u-bob'') = [''n1'', ''n2''] \<and>
   map acked_room_id (snd (run_schedule two_users_db crossing_calls [0, 0, 0, 1, 1, 1]))
     = [Some ''n1'', Some ''n1''] \<and>
   map acked_created (snd (run_schedule two_users_db crossing_calls [0, 0, 0, 1, 1, 1]))
     = [Some True, Some False]"
  by code_simp

subsection \<open>Automatic recording: start and stop\<close>
























end
